theory Spec2Isabelle
  imports Complex_Main "HOL-Library.Word"
begin

unbundle bit_operations_syntax

section \<open>Wire data\<close>

type_synonym uint8 = "8 word"
type_synonym uint16 = "16 word"
type_synonym int32 = "32 word"

text \<open>A frame is the byte vector handed to \<^verbatim>\<open>RtMidiOut::sendMessage\<close>.\<close>

type_synonym frame = "uint8 list"

definition TW_MAX_ENCODER_VALUE :: int where
  "TW_MAX_ENCODER_VALUE = 0x3FFF"

record MidiCCMessage =
  command_channel :: uint8
  controller :: uint8
  cc_value :: uint8

definition getCommand :: "MidiCCMessage \<Rightarrow> int" where
  "getCommand m = uint (drop_bit 4 (command_channel m))"

definition getChannel :: "MidiCCMessage \<Rightarrow> int" where
  "getChannel m = uint (command_channel m AND 0x0F)"

section \<open>The openFrameworks numerics, taken as a parameter\<close>

text \<open>
  \<^verbatim>\<open>ofMap\<close>, \<^verbatim>\<open>std::round\<close> and the conversions between \<^verbatim>\<open>float\<close> and the
  integer types belong to the libraries the program links against. The model is
  polymorphic in the type \<open>'f\<close> of float values and takes these operations as a
  record, so that nothing proved for every such record depends on rounding.
\<close>

record 'f ofLib =
  ofMap :: "'f \<Rightarrow> 'f \<Rightarrow> 'f \<Rightarrow> 'f \<Rightarrow> 'f \<Rightarrow> bool \<Rightarrow> 'f"
  ofRound :: "'f \<Rightarrow> 'f"
  fromInt :: "int \<Rightarrow> 'f"
  toInt :: "'f \<Rightarrow> int"

definition float_to_uint16 :: "'f ofLib \<Rightarrow> 'f \<Rightarrow> uint16" where
  "float_to_uint16 lib x = word_of_int (toInt lib x)"

definition float_to_uint8 :: "'f ofLib \<Rightarrow> 'f \<Rightarrow> uint8" where
  "float_to_uint8 lib x = word_of_int (toInt lib x)"

definition float_to_int32 :: "'f ofLib \<Rightarrow> 'f \<Rightarrow> int32" where
  "float_to_int32 lib x = word_of_int (toInt lib x)"

section \<open>Closures and subscriptions\<close>

text \<open>
  The two \<^verbatim>\<open>std::function\<close> members of an encoder hold one of the three
  lambdas that \<^verbatim>\<open>setParam\<close> builds; each is represented by its captures: the
  parameter it refers to (an index into the store of parameters of that type)
  and, for the numeric ones, \<^verbatim>\<open>pMin\<close> and \<^verbatim>\<open>pMax\<close>.
\<close>

datatype 'f handler =
  RotaryFloatUpdate nat 'f 'f
| RotaryIntUpdate nat int32 int32
| SwitchBoolUpdate nat

text \<open>
  An \<^verbatim>\<open>ofEventListener\<close> is the handle of one subscription: it names the
  parameter and the identifier of the listener in that parameter's list. An empty
  handle is \<open>None\<close>.
\<close>

datatype ofEventListener =
  FloatSub nat nat
| IntSub nat nat
| BoolSub nat nat

section \<open>Encoder\<close>

record 'f Encoder =
  mMidiOut :: bool
  pos :: uint8
  rotaryEnabled :: bool
  switchEnabled :: bool
  mELSwitchParamChange :: "ofEventListener option"
  mELRotaryParamChange :: "ofEventListener option"
  updateSwitchParam :: "'f handler option"
  updateRotaryParam :: "'f handler option"

text \<open>
  \<open>mMidiOut\<close> is \<open>False\<close> for the null pointer. The methods of \<^verbatim>\<open>Encoder\<close>
  that only send return the frames they send, in order; the two that also write
  a flag return the encoder as well.
\<close>

definition setEncoderPhenotype :: "'f Encoder \<Rightarrow> uint8 \<Rightarrow> frame list" where
  "setEncoderPhenotype e phenotype =
     (if \<not> mMidiOut e then [] else [[0xB4, pos e, phenotype]])"

definition setRotaryState :: "bool \<Rightarrow> bool \<Rightarrow> 'f Encoder \<Rightarrow> 'f Encoder \<times> frame list" where
  "setRotaryState enabled force e =
     (if rotaryEnabled e = enabled \<and> force = False then (e, [])
      else (e\<lparr>rotaryEnabled := enabled\<rparr>,
            if enabled then setEncoderPhenotype e 0
            else if \<not> switchEnabled e then setEncoderPhenotype e 2
            else []))"

definition setSwitchState :: "bool \<Rightarrow> bool \<Rightarrow> 'f Encoder \<Rightarrow> 'f Encoder \<times> frame list" where
  "setSwitchState enabled force e =
     (if switchEnabled e = enabled \<and> force = False then (e, [])
      else (e\<lparr>switchEnabled := enabled\<rparr>,
            if enabled then setEncoderPhenotype e 1
            else if \<not> rotaryEnabled e then setEncoderPhenotype e 2
            else []))"

definition sendToSwitch :: "'f Encoder \<Rightarrow> uint8 \<Rightarrow> frame list" where
  "sendToSwitch e v = (if \<not> mMidiOut e then [] else [[0xB1, pos e, v]])"

definition sendToRotary :: "'f Encoder \<Rightarrow> uint8 \<Rightarrow> uint8 \<Rightarrow> frame list" where
  "sendToRotary e msb lsb =
     (if \<not> mMidiOut e then [] else [[0xB0, 0x58, lsb], [0xB0, pos e, msb]])"

definition value_msb :: "uint16 \<Rightarrow> uint8" where
  "value_msb v = ucast (drop_bit 7 v AND 0x7F)"

definition value_lsb :: "uint16 \<Rightarrow> uint8" where
  "value_lsb v = ucast (v AND 0x7F)"

definition setRotaryValue :: "'f Encoder \<Rightarrow> uint16 \<Rightarrow> frame list" where
  "setRotaryValue e v =
     (if \<not> rotaryEnabled e then []
      else sendToRotary e (value_msb v) (value_lsb v))"

definition setSwitchValue :: "'f Encoder \<Rightarrow> uint16 \<Rightarrow> frame list" where
  "setSwitchValue e v =
     (if \<not> switchEnabled e then []
      else sendToSwitch e (value_msb v))"

definition led_code :: "'f ofLib \<Rightarrow> 'f \<Rightarrow> int \<Rightarrow> int \<Rightarrow> uint8" where
  "led_code lib x lo hi =
     float_to_uint8 lib
       (ofRound lib (ofMap lib x (fromInt lib 0) (fromInt lib 1) (fromInt lib lo) (fromInt lib hi) True))"

definition Encoder_setHueRGB :: "'f ofLib \<Rightarrow> 'f Encoder \<Rightarrow> 'f \<Rightarrow> frame list" where
  "Encoder_setHueRGB lib e h =
     (if \<not> mMidiOut e then [] else [[0xB1, pos e, led_code lib h 1 126]])"

definition Encoder_setBrightnessRotary :: "'f ofLib \<Rightarrow> 'f Encoder \<Rightarrow> 'f \<Rightarrow> frame list" where
  "Encoder_setBrightnessRotary lib e b =
     (if \<not> mMidiOut e then [] else [[0xB2, pos e, led_code lib b 65 95]])"

definition Encoder_setBrightnessRGB :: "'f ofLib \<Rightarrow> 'f Encoder \<Rightarrow> 'f \<Rightarrow> frame list" where
  "Encoder_setBrightnessRGB lib e b =
     (if \<not> mMidiOut e then [] else [[0xB2, pos e, led_code lib b 17 47]])"

definition setAnimation :: "'f Encoder \<Rightarrow> uint8 \<Rightarrow> frame list" where
  "setAnimation e v = (if \<not> mMidiOut e then [] else [[0xB2, pos e, v]])"

text \<open>
  The reconstruction in the rotary lambdas of \<^verbatim>\<open>setParam\<close>:
  \<^verbatim>\<open>uint16_t highRezVal = ((msb & 0x7F) << 7) | (lsb & 0x7F)\<close>, computed in
  \<^verbatim>\<open>int\<close> after integer promotion and truncated to 16 bits.
\<close>

definition highRezVal :: "uint8 \<Rightarrow> uint8 \<Rightarrow> uint16" where
  "highRezVal msb lsb =
     ucast (push_bit 7 (ucast (msb AND 0x7F) :: int32) OR (ucast (lsb AND 0x7F) :: int32))"

section \<open>Parameters\<close>

text \<open>
  The parameters are owned by the application. Each keeps its value, for the
  numeric kinds its bounds, and the list of its change listeners in the order
  of subscription. A listener of this program is one of the lambdas given to
  \<^verbatim>\<open>newListener\<close> in \<^verbatim>\<open>setParam\<close>, represented by the identifier of the
  subscription and the captures: the encoder (its index in \<^verbatim>\<open>mEncoders\<close>)
  and, for the numeric kinds, \<^verbatim>\<open>pMin\<close> and \<^verbatim>\<open>pMax\<close>.
\<close>

record 'f FloatParameter =
  f_value :: 'f
  f_min :: 'f
  f_max :: 'f
  f_listeners :: "(nat \<times> nat \<times> 'f \<times> 'f) list"

record IntParameter =
  i_value :: int32
  i_min :: int32
  i_max :: int32
  i_listeners :: "(nat \<times> nat \<times> int32 \<times> int32) list"

record BoolParameter =
  b_value :: bool
  b_listeners :: "(nat \<times> nat) list"

text \<open>
  An element of an \<^verbatim>\<open>ofParameterGroup\<close>: the \<^verbatim>\<open>dynamic_pointer_cast\<close>s of
  \<^verbatim>\<open>setParams\<close> tell a float, an int and a bool parameter from any other.
\<close>

datatype param_ref = FloatRef nat | IntRef nat | BoolRef nat | OtherRef

section \<open>The controller and what it acts on\<close>

text \<open>
  \<open>mEncoders\<close>, \<open>mHighResVelLowByte\<close> and \<open>mChannelMidiIn\<close> are the members of
  \<^verbatim>\<open>ofxParameterTwisterImpl\<close>; the queue holds the messages not yet received,
  oldest first. The other fields are what the program acts on: the parameters,
  the frames given to \<^verbatim>\<open>sendMessage\<close> so far (oldest first) and the next unused
  subscription identifier.
\<close>

record 'f Twister =
  mEncoders :: "'f Encoder list"
  mHighResVelLowByte :: uint8
  mChannelMidiIn :: "MidiCCMessage list"
  floatParams :: "nat \<Rightarrow> 'f FloatParameter"
  intParams :: "nat \<Rightarrow> IntParameter"
  boolParams :: "nat \<Rightarrow> BoolParameter"
  sent :: "frame list"
  nextListener :: nat

definition sendMessage :: "frame list \<Rightarrow> 'f Twister \<Rightarrow> 'f Twister" where
  "sendMessage fs w = w\<lparr>sent := sent w @ fs\<rparr>"

text \<open>\<^verbatim>\<open>std::array<Encoder, 16>::size()\<close>.\<close>

definition mEncoders_size :: nat where
  "mEncoders_size = 16"

subsection \<open>Parameter writes and their listeners\<close>

text \<open>
  The bodies of the three listeners. Each holds a reference to an element of
  \<^verbatim>\<open>mEncoders\<close>; an index that denotes no element stands for no reference and
  does nothing.
\<close>

definition rotaryFloatListener ::
  "'f ofLib \<Rightarrow> nat \<Rightarrow> 'f \<Rightarrow> 'f \<Rightarrow> 'f \<Rightarrow> 'f Twister \<Rightarrow> 'f Twister" where
  "rotaryFloatListener lib idx pMin pMax v w =
     (if idx < length (mEncoders w) then
        sendMessage
          (setRotaryValue (mEncoders w ! idx)
             (float_to_uint16 lib
                (ofMap lib v pMin pMax (fromInt lib 0) (fromInt lib TW_MAX_ENCODER_VALUE) True))) w
      else w)"

definition rotaryIntListener ::
  "'f ofLib \<Rightarrow> nat \<Rightarrow> int32 \<Rightarrow> int32 \<Rightarrow> int32 \<Rightarrow> 'f Twister \<Rightarrow> 'f Twister" where
  "rotaryIntListener lib idx pMin pMax v w =
     (if idx < length (mEncoders w) then
        sendMessage
          (setRotaryValue (mEncoders w ! idx)
             (float_to_uint16 lib
                (ofMap lib (fromInt lib (sint v)) (fromInt lib (sint pMin)) (fromInt lib (sint pMax))
                   (fromInt lib 0) (fromInt lib TW_MAX_ENCODER_VALUE) True))) w
      else w)"

definition switchBoolListener :: "nat \<Rightarrow> bool \<Rightarrow> 'f Twister \<Rightarrow> 'f Twister" where
  "switchBoolListener idx v w =
     (if idx < length (mEncoders w) then
        sendMessage
          (setSwitchValue (mEncoders w ! idx)
             (if v = True then word_of_int TW_MAX_ENCODER_VALUE else 0)) w
      else w)"

text \<open>
  \<^verbatim>\<open>ofParameter::set\<close>: store the value, then call the listeners in the order
  of their subscription.
\<close>

definition setFloat :: "'f ofLib \<Rightarrow> nat \<Rightarrow> 'f \<Rightarrow> 'f Twister \<Rightarrow> 'f Twister" where
  "setFloat lib pid v w =
     foldl (\<lambda>w' (tok, idx, pMin, pMax). rotaryFloatListener lib idx pMin pMax v w')
       (w\<lparr>floatParams := (floatParams w)(pid := (floatParams w pid)\<lparr>f_value := v\<rparr>)\<rparr>)
       (f_listeners (floatParams w pid))"

definition setInt :: "'f ofLib \<Rightarrow> nat \<Rightarrow> int32 \<Rightarrow> 'f Twister \<Rightarrow> 'f Twister" where
  "setInt lib pid v w =
     foldl (\<lambda>w' (tok, idx, pMin, pMax). rotaryIntListener lib idx pMin pMax v w')
       (w\<lparr>intParams := (intParams w)(pid := (intParams w pid)\<lparr>i_value := v\<rparr>)\<rparr>)
       (i_listeners (intParams w pid))"

definition setBool :: "nat \<Rightarrow> bool \<Rightarrow> 'f Twister \<Rightarrow> 'f Twister" where
  "setBool pid v w =
     foldl (\<lambda>w' (tok, idx). switchBoolListener idx v w')
       (w\<lparr>boolParams := (boolParams w)(pid := (boolParams w pid)\<lparr>b_value := v\<rparr>)\<rparr>)
       (b_listeners (boolParams w pid))"

text \<open>
  Calling \<^verbatim>\<open>updateRotaryParam\<close> or \<^verbatim>\<open>updateSwitchParam\<close> with \<open>(msb, lsb)\<close>:
  the bodies of the three lambdas of \<^verbatim>\<open>setParam\<close>.
\<close>

definition invoke :: "'f ofLib \<Rightarrow> 'f handler \<Rightarrow> uint8 \<Rightarrow> uint8 \<Rightarrow> 'f Twister \<Rightarrow> 'f Twister" where
  "invoke lib h msb lsb w =
     (case h of
        RotaryFloatUpdate pid pMin pMax \<Rightarrow>
          (let hv = highRezVal msb lsb
           in setFloat lib pid
                (ofMap lib (fromInt lib (uint hv)) (fromInt lib 0) (fromInt lib TW_MAX_ENCODER_VALUE)
                   pMin pMax True) w)
      | RotaryIntUpdate pid pMin pMax \<Rightarrow>
          (let hv = highRezVal msb lsb
           in setInt lib pid
                (float_to_int32 lib
                   (ofMap lib (fromInt lib (uint hv)) (fromInt lib 0) (fromInt lib TW_MAX_ENCODER_VALUE)
                      (fromInt lib (sint pMin)) (fromInt lib (sint pMax)) True)) w)
      | SwitchBoolUpdate pid \<Rightarrow>
          setBool pid (if 63 < uint msb then True else False) w)"

subsection \<open>Subscriptions\<close>

definition unsubscribe :: "ofEventListener option \<Rightarrow> 'f Twister \<Rightarrow> 'f Twister" where
  "unsubscribe h w =
     (case h of
        None \<Rightarrow> w
      | Some (FloatSub pid tok) \<Rightarrow>
          w\<lparr>floatParams := (floatParams w)(pid := (floatParams w pid)
               \<lparr>f_listeners := filter (\<lambda>l. fst l \<noteq> tok) (f_listeners (floatParams w pid))\<rparr>)\<rparr>
      | Some (IntSub pid tok) \<Rightarrow>
          w\<lparr>intParams := (intParams w)(pid := (intParams w pid)
               \<lparr>i_listeners := filter (\<lambda>l. fst l \<noteq> tok) (i_listeners (intParams w pid))\<rparr>)\<rparr>
      | Some (BoolSub pid tok) \<Rightarrow>
          w\<lparr>boolParams := (boolParams w)(pid := (boolParams w pid)
               \<lparr>b_listeners := filter (\<lambda>l. fst l \<noteq> tok) (b_listeners (boolParams w pid))\<rparr>)\<rparr>)"

definition newFloatListener ::
  "nat \<Rightarrow> nat \<Rightarrow> 'f \<Rightarrow> 'f \<Rightarrow> 'f Twister \<Rightarrow> ofEventListener \<times> 'f Twister" where
  "newFloatListener pid idx pMin pMax w =
     (FloatSub pid (nextListener w),
      w\<lparr>floatParams := (floatParams w)(pid := (floatParams w pid)
           \<lparr>f_listeners := f_listeners (floatParams w pid) @ [(nextListener w, idx, pMin, pMax)]\<rparr>),
        nextListener := Suc (nextListener w)\<rparr>)"

definition newIntListener ::
  "nat \<Rightarrow> nat \<Rightarrow> int32 \<Rightarrow> int32 \<Rightarrow> 'f Twister \<Rightarrow> ofEventListener \<times> 'f Twister" where
  "newIntListener pid idx pMin pMax w =
     (IntSub pid (nextListener w),
      w\<lparr>intParams := (intParams w)(pid := (intParams w pid)
           \<lparr>i_listeners := i_listeners (intParams w pid) @ [(nextListener w, idx, pMin, pMax)]\<rparr>),
        nextListener := Suc (nextListener w)\<rparr>)"

definition newBoolListener :: "nat \<Rightarrow> nat \<Rightarrow> 'f Twister \<Rightarrow> ofEventListener \<times> 'f Twister" where
  "newBoolListener pid idx w =
     (BoolSub pid (nextListener w),
      w\<lparr>boolParams := (boolParams w)(pid := (boolParams w pid)
           \<lparr>b_listeners := b_listeners (boolParams w pid) @ [(nextListener w, idx)]\<rparr>),
        nextListener := Suc (nextListener w)\<rparr>)"

text \<open>
  Move-assigning a new handle to a listener member of encoder \<open>idx\<close> releases
  the subscription the member held.
\<close>

definition assignRotaryListener :: "nat \<Rightarrow> ofEventListener \<Rightarrow> 'f Twister \<Rightarrow> 'f Twister" where
  "assignRotaryListener idx h w =
     (let w1 = unsubscribe (mELRotaryParamChange (mEncoders w ! idx)) w
      in w1\<lparr>mEncoders := (mEncoders w1)[idx := (mEncoders w1 ! idx)\<lparr>mELRotaryParamChange := Some h\<rparr>]\<rparr>)"

definition assignSwitchListener :: "nat \<Rightarrow> ofEventListener \<Rightarrow> 'f Twister \<Rightarrow> 'f Twister" where
  "assignSwitchListener idx h w =
     (let w1 = unsubscribe (mELSwitchParamChange (mEncoders w ! idx)) w
      in w1\<lparr>mEncoders := (mEncoders w1)[idx := (mEncoders w1 ! idx)\<lparr>mELSwitchParamChange := Some h\<rparr>]\<rparr>)"

subsection \<open>Assigning and clearing parameters\<close>

text \<open>
  An \<^verbatim>\<open>Encoder&\<close> argument is an element of \<^verbatim>\<open>mEncoders\<close>, given here by its
  index: the \<^verbatim>\<open>size_t\<close> overloads pass \<^verbatim>\<open>mEncoders[idx_]\<close> after their bounds
  check and \<^verbatim>\<open>setParams\<close> and \<^verbatim>\<open>clear\<close> pass the elements of the array in turn.
  The definitions ending in \<open>_enc\<close> are the \<^verbatim>\<open>Encoder&\<close> overloads.
\<close>

definition setRotaryState_enc :: "nat \<Rightarrow> bool \<Rightarrow> bool \<Rightarrow> 'f Twister \<Rightarrow> 'f Twister" where
  "setRotaryState_enc idx enabled force w =
     (case setRotaryState enabled force (mEncoders w ! idx) of
        (e, fs) \<Rightarrow> sendMessage fs (w\<lparr>mEncoders := (mEncoders w)[idx := e]\<rparr>))"

definition setSwitchState_enc :: "nat \<Rightarrow> bool \<Rightarrow> bool \<Rightarrow> 'f Twister \<Rightarrow> 'f Twister" where
  "setSwitchState_enc idx enabled force w =
     (case setSwitchState enabled force (mEncoders w ! idx) of
        (e, fs) \<Rightarrow> sendMessage fs (w\<lparr>mEncoders := (mEncoders w)[idx := e]\<rparr>))"

definition setParam_float_enc :: "'f ofLib \<Rightarrow> nat \<Rightarrow> nat \<Rightarrow> 'f Twister \<Rightarrow> 'f Twister" where
  "setParam_float_enc lib idx pid w =
     (let w1 = setRotaryState_enc idx True False w;
          p = floatParams w1 pid;
          w2 = sendMessage
                 (setRotaryValue (mEncoders w1 ! idx)
                    (float_to_uint16 lib
                       (ofMap lib (f_value p) (f_min p) (f_max p)
                          (fromInt lib 0) (fromInt lib TW_MAX_ENCODER_VALUE) True))) w1;
          pMin = f_min p;
          pMax = f_max p;
          w3 = w2\<lparr>mEncoders := (mEncoders w2)
                 [idx := (mEncoders w2 ! idx)\<lparr>updateRotaryParam := Some (RotaryFloatUpdate pid pMin pMax)\<rparr>]\<rparr>
      in case newFloatListener pid idx pMin pMax w3 of
           (h, w4) \<Rightarrow> assignRotaryListener idx h w4)"

definition setParam_int_enc :: "'f ofLib \<Rightarrow> nat \<Rightarrow> nat \<Rightarrow> 'f Twister \<Rightarrow> 'f Twister" where
  "setParam_int_enc lib idx pid w =
     (let w1 = setRotaryState_enc idx True False w;
          p = intParams w1 pid;
          w2 = sendMessage
                 (setRotaryValue (mEncoders w1 ! idx)
                    (float_to_uint16 lib
                       (ofMap lib (fromInt lib (sint (i_value p)))
                          (fromInt lib (sint (i_min p))) (fromInt lib (sint (i_max p)))
                          (fromInt lib 0) (fromInt lib TW_MAX_ENCODER_VALUE) True))) w1;
          pMin = i_min p;
          pMax = i_max p;
          w3 = w2\<lparr>mEncoders := (mEncoders w2)
                 [idx := (mEncoders w2 ! idx)\<lparr>updateRotaryParam := Some (RotaryIntUpdate pid pMin pMax)\<rparr>]\<rparr>
      in case newIntListener pid idx pMin pMax w3 of
           (h, w4) \<Rightarrow> assignRotaryListener idx h w4)"

definition setParam_bool_enc :: "nat \<Rightarrow> nat \<Rightarrow> 'f Twister \<Rightarrow> 'f Twister" where
  "setParam_bool_enc idx pid w =
     (let w1 = setSwitchState_enc idx True False w;
          p = boolParams w1 pid;
          w2 = sendMessage
                 (setSwitchValue (mEncoders w1 ! idx)
                    (if b_value p = True then word_of_int TW_MAX_ENCODER_VALUE else 0)) w1;
          w3 = w2\<lparr>mEncoders := (mEncoders w2)
                 [idx := (mEncoders w2 ! idx)\<lparr>updateSwitchParam := Some (SwitchBoolUpdate pid)\<rparr>]\<rparr>
      in case newBoolListener pid idx w3 of
           (h, w4) \<Rightarrow> assignSwitchListener idx h w4)"

definition setParam_float :: "'f ofLib \<Rightarrow> nat \<Rightarrow> nat \<Rightarrow> 'f Twister \<Rightarrow> 'f Twister" where
  "setParam_float lib idx pid w =
     (if idx < mEncoders_size then setParam_float_enc lib idx pid w else w)"

definition setParam_int :: "'f ofLib \<Rightarrow> nat \<Rightarrow> nat \<Rightarrow> 'f Twister \<Rightarrow> 'f Twister" where
  "setParam_int lib idx pid w =
     (if idx < mEncoders_size then setParam_int_enc lib idx pid w else w)"

definition setParam_bool :: "nat \<Rightarrow> nat \<Rightarrow> 'f Twister \<Rightarrow> 'f Twister" where
  "setParam_bool idx pid w =
     (if idx < mEncoders_size then setParam_bool_enc idx pid w else w)"

text \<open>\<^verbatim>\<open>ofEventListener::unsubscribe\<close> on a member: release and leave it empty.\<close>

definition clearParam_enc :: "nat \<Rightarrow> bool \<Rightarrow> 'f Twister \<Rightarrow> 'f Twister" where
  "clearParam_enc idx force w =
     (let w1 = setRotaryState_enc idx False force w;
          w2 = unsubscribe (mELRotaryParamChange (mEncoders w1 ! idx)) w1;
          w3 = w2\<lparr>mEncoders := (mEncoders w2)
                 [idx := (mEncoders w2 ! idx)\<lparr>mELRotaryParamChange := None\<rparr>]\<rparr>;
          w4 = setSwitchState_enc idx False force w3;
          w5 = unsubscribe (mELSwitchParamChange (mEncoders w4 ! idx)) w4
      in w5\<lparr>mEncoders := (mEncoders w5)
            [idx := (mEncoders w5 ! idx)\<lparr>mELSwitchParamChange := None\<rparr>]\<rparr>)"

definition clearParam :: "nat \<Rightarrow> bool \<Rightarrow> 'f Twister \<Rightarrow> 'f Twister" where
  "clearParam idx force w =
     (if idx < mEncoders_size then clearParam_enc idx force w else w)"

definition clear :: "'f Twister \<Rightarrow> 'f Twister" where
  "clear w = foldl (\<lambda>w' idx. clearParam_enc idx True w') w [0..<mEncoders_size]"

text \<open>
  \<^verbatim>\<open>setParams\<close>: the loop over the encoders, with the iterator \<open>it\<close> given by the
  elements of the group not yet visited.
\<close>

fun setParams_loop :: "'f ofLib \<Rightarrow> nat list \<Rightarrow> param_ref list \<Rightarrow> 'f Twister \<Rightarrow> 'f Twister" where
  "setParams_loop lib [] it w = w"
| "setParams_loop lib (idx # rest) (p # it) w =
     setParams_loop lib rest it
       (case p of
          FloatRef pid \<Rightarrow> setParam_float_enc lib idx pid w
        | IntRef pid \<Rightarrow> setParam_int_enc lib idx pid w
        | BoolRef pid \<Rightarrow> setParam_bool_enc idx pid w
        | OtherRef \<Rightarrow> clearParam_enc idx False w)"
| "setParams_loop lib (idx # rest) [] w =
     setParams_loop lib rest []
       (setSwitchState_enc idx False True (setRotaryState_enc idx False True w))"

definition setParams :: "'f ofLib \<Rightarrow> param_ref list \<Rightarrow> 'f Twister \<Rightarrow> 'f Twister" where
  "setParams lib grp w = setParams_loop lib [0..<mEncoders_size] grp w"

subsection \<open>LEDs\<close>

datatype Animation = NONE | STROBE | PULSE | RAINBOW

definition setHueRGB_enc :: "'f ofLib \<Rightarrow> nat \<Rightarrow> 'f \<Rightarrow> 'f Twister \<Rightarrow> 'f Twister" where
  "setHueRGB_enc lib idx hue w = sendMessage (Encoder_setHueRGB lib (mEncoders w ! idx) hue) w"

definition setHueRGB :: "'f ofLib \<Rightarrow> nat \<Rightarrow> 'f \<Rightarrow> 'f Twister \<Rightarrow> 'f Twister" where
  "setHueRGB lib idx hue w =
     (if idx < mEncoders_size then setHueRGB_enc lib idx hue w else w)"

definition setBrightnessRGB_enc :: "'f ofLib \<Rightarrow> nat \<Rightarrow> 'f \<Rightarrow> 'f Twister \<Rightarrow> 'f Twister" where
  "setBrightnessRGB_enc lib idx bri w =
     sendMessage (Encoder_setBrightnessRGB lib (mEncoders w ! idx) bri) w"

definition setBrightnessRGB :: "'f ofLib \<Rightarrow> nat \<Rightarrow> 'f \<Rightarrow> 'f Twister \<Rightarrow> 'f Twister" where
  "setBrightnessRGB lib idx bri w =
     (if idx < mEncoders_size then setBrightnessRGB_enc lib idx bri w else w)"

definition animationRGB_mode :: "Animation \<Rightarrow> uint8 \<Rightarrow> uint8" where
  "animationRGB_mode anim rate =
     (case anim of
        NONE \<Rightarrow> 0
      | STROBE \<Rightarrow> 1 + rate
      | PULSE \<Rightarrow> 9 + rate
      | RAINBOW \<Rightarrow> 127)"

definition setAnimationRGB_enc :: "nat \<Rightarrow> Animation \<Rightarrow> uint8 \<Rightarrow> 'f Twister \<Rightarrow> 'f Twister" where
  "setAnimationRGB_enc idx anim rate w =
     sendMessage (setAnimation (mEncoders w ! idx) (animationRGB_mode anim rate)) w"

definition setAnimationRGB :: "nat \<Rightarrow> Animation \<Rightarrow> uint8 \<Rightarrow> 'f Twister \<Rightarrow> 'f Twister" where
  "setAnimationRGB idx anim rate w =
     (if idx < mEncoders_size \<and> rate < 8 then setAnimationRGB_enc idx anim rate w else w)"

definition setBrightnessRotary_enc :: "'f ofLib \<Rightarrow> nat \<Rightarrow> 'f \<Rightarrow> 'f Twister \<Rightarrow> 'f Twister" where
  "setBrightnessRotary_enc lib idx bri w =
     sendMessage (Encoder_setBrightnessRotary lib (mEncoders w ! idx) bri) w"

definition setBrightnessRotary :: "'f ofLib \<Rightarrow> nat \<Rightarrow> 'f \<Rightarrow> 'f Twister \<Rightarrow> 'f Twister" where
  "setBrightnessRotary lib idx bri w =
     (if idx < mEncoders_size then setBrightnessRotary_enc lib idx bri w else w)"

text \<open>The \<^verbatim>\<open>default\<close> label of the rotary switch shares the \<^verbatim>\<open>PULSE\<close> branch.\<close>

definition animationRotary_mode :: "Animation \<Rightarrow> uint8 \<Rightarrow> uint8" where
  "animationRotary_mode anim rate =
     (case anim of
        NONE \<Rightarrow> 48
      | STROBE \<Rightarrow> 49 + rate
      | _ \<Rightarrow> 57 + rate)"

definition setAnimationRotary_enc :: "nat \<Rightarrow> Animation \<Rightarrow> uint8 \<Rightarrow> 'f Twister \<Rightarrow> 'f Twister" where
  "setAnimationRotary_enc idx anim rate w =
     sendMessage (setAnimation (mEncoders w ! idx) (animationRotary_mode anim rate)) w"

definition setAnimationRotary :: "nat \<Rightarrow> Animation \<Rightarrow> uint8 \<Rightarrow> 'f Twister \<Rightarrow> 'f Twister" where
  "setAnimationRotary idx anim rate w =
     (if idx < mEncoders_size \<and> rate < 8 \<and> anim \<noteq> RAINBOW
      then setAnimationRotary_enc idx anim rate w else w)"

subsection \<open>Inbound messages\<close>

text \<open>
  \<^verbatim>\<open>_midi_callback\<close>: a message of three bytes is queued, any other is dropped.
\<close>

definition midi_callback :: "uint8 list \<Rightarrow> 'f Twister \<Rightarrow> 'f Twister" where
  "midi_callback message w =
     (if length message = 3 then
        w\<lparr>mChannelMidiIn := mChannelMidiIn w @
             [\<lparr>command_channel = message ! 0, controller = message ! 1, cc_value = message ! 2\<rparr>]\<rparr>
      else w)"

text \<open>
  \<^verbatim>\<open>std::array::operator[]\<close> does not check its index. An access outside the
  sixteen elements is undefined behaviour; the model stops there with a fault
  that records the index.
\<close>

datatype fault = OutOfBounds nat

text \<open>The body of the loop of \<^verbatim>\<open>update\<close> for one received message \<open>m\<close>.\<close>

definition dispatch :: "'f ofLib \<Rightarrow> MidiCCMessage \<Rightarrow> 'f Twister \<Rightarrow> fault + 'f Twister" where
  "dispatch lib m w =
     (if getCommand m = 0xB then
        if getChannel m = 0x0 then
          (let encoderID = controller m
           in if controller m = 0x58 then
                Inr (w\<lparr>mHighResVelLowByte := cc_value m AND 0x7F\<rparr>)
              else if unat encoderID < mEncoders_size then
                (let e = mEncoders w ! unat encoderID;
                     w1 = (if rotaryEnabled e then
                             (case updateRotaryParam e of
                                Some h \<Rightarrow> invoke lib h (cc_value m) (mHighResVelLowByte w) w
                              | None \<Rightarrow> w)
                           else w)
                 in Inr (w1\<lparr>mHighResVelLowByte := 0\<rparr>))
              else Inr w)
        else if getChannel m = 0x1 then
          (let encoderID = unat (controller m)
           in if mEncoders_size \<le> encoderID then Inl (OutOfBounds encoderID)
              else
                (let e = mEncoders w ! encoderID
                 in if switchEnabled e then
                      (case updateSwitchParam e of
                         Some h \<Rightarrow> Inr (invoke lib h (cc_value m) 0 w)
                       | None \<Rightarrow> Inr w)
                    else Inr w))
        else Inr w
      else Inr w)"

text \<open>
  \<^verbatim>\<open>update\<close>: \<^verbatim>\<open>tryReceive\<close> takes the oldest message off the queue until the
  queue is empty. Nothing in the body of the loop adds to the queue, so the
  messages still to come are the tail \<open>ms\<close>.
\<close>

fun update_loop :: "'f ofLib \<Rightarrow> MidiCCMessage list \<Rightarrow> 'f Twister \<Rightarrow> fault + 'f Twister" where
  "update_loop lib [] w = Inr w"
| "update_loop lib (m # ms) w =
     (case dispatch lib m (w\<lparr>mChannelMidiIn := ms\<rparr>) of
        Inl f \<Rightarrow> Inl f
      | Inr w' \<Rightarrow> update_loop lib ms w')"

definition update :: "'f ofLib \<Rightarrow> 'f Twister \<Rightarrow> fault + 'f Twister" where
  "update lib w = update_loop lib (mChannelMidiIn w) w"

subsection \<open>Construction and setup\<close>

text \<open>
  A newly constructed controller, every encoder with its default member
  initialisers, beside the parameters \<open>fp\<close>, \<open>ip\<close> and \<open>bp\<close> of the
  application.
\<close>

definition construct ::
  "(nat \<Rightarrow> 'f FloatParameter) \<Rightarrow> (nat \<Rightarrow> IntParameter) \<Rightarrow> (nat \<Rightarrow> BoolParameter) \<Rightarrow> 'f Twister" where
  "construct fp ip bp =
     \<lparr>mEncoders =
        replicate 16
          \<lparr>mMidiOut = False, pos = 0, rotaryEnabled = False, switchEnabled = False,
           mELSwitchParamChange = None, mELRotaryParamChange = None,
           updateSwitchParam = None, updateRotaryParam = None\<rparr>,
      mHighResVelLowByte = 0, mChannelMidiIn = [],
      floatParams = fp, intParams = ip, boolParams = bp, sent = [], nextListener = 0\<rparr>"

text \<open>
  The last loop of \<^verbatim>\<open>setup\<close>, which gives every encoder its position and the
  output. \<open>out\<close> tells whether \<^verbatim>\<open>mMidiOut\<close> is a non-null pointer then; opening
  the ports is the MIDI library's business.
\<close>

definition setup_impl :: "bool \<Rightarrow> 'f Twister \<Rightarrow> 'f Twister" where
  "setup_impl out w =
     foldl (\<lambda>w' i. w'\<lparr>mEncoders := (mEncoders w')
                        [i := (mEncoders w' ! i)\<lparr>mMidiOut := out, pos := of_nat i\<rparr>]\<rparr>)
       w [0..<16]"

section \<open>An exact instance of the numerics\<close>

text \<open>
  Modelled from the spec: \<^verbatim>\<open>ofMap\<close> is the library's, absent from the sources;
  the spec describes it as linear scaling from the input range to the output
  range, clamped. This instance computes it on exact reals, rounds half away
  from zero and converts to an integer by truncation. It is used for the
  concrete runs only.
\<close>

definition exact_ofMap :: "real \<Rightarrow> real \<Rightarrow> real \<Rightarrow> real \<Rightarrow> real \<Rightarrow> bool \<Rightarrow> real" where
  "exact_ofMap v inMin inMax outMin outMax clamp =
     (if inMin = inMax then outMin
      else
        (let outVal = (v - inMin) / (inMax - inMin) * (outMax - outMin) + outMin
         in if clamp then
              (if outMax < outMin then
                 (if outVal < outMax then outMax else if outVal > outMin then outMin else outVal)
               else
                 (if outVal > outMax then outMax else if outVal < outMin then outMin else outVal))
            else outVal))"

definition exactLib :: "real ofLib" where
  "exactLib =
     \<lparr>ofMap = exact_ofMap,
      ofRound = (\<lambda>x. if 0 \<le> x then of_int \<lfloor>x + 1 / 2\<rfloor> else of_int \<lceil>x - 1 / 2\<rceil>),
      fromInt = of_int,
      toInt = (\<lambda>x. if 0 \<le> x then \<lfloor>x\<rfloor> else \<lceil>x\<rceil>)\<rparr>"

text \<open>
  The application of the concrete runs: float parameters at \<open>1/2\<close> in \<open>[0, 1]\<close>,
  int parameters at 5 in \<open>[0, 10]\<close>, bool parameters \<open>True\<close>, none with a
  listener; the controller constructed and set up with an output.
\<close>

definition example_start :: "real Twister" where
  "example_start =
     setup_impl True
       (construct
          (\<lambda>_. \<lparr>f_value = 1 / 2, f_min = 0, f_max = 1, f_listeners = []\<rparr>)
          (\<lambda>_. \<lparr>i_value = 5, i_min = 0, i_max = 10, i_listeners = []\<rparr>)
          (\<lambda>_. \<lparr>b_value = True, b_listeners = []\<rparr>))"

section \<open>The 14-bit split and its reconstruction\<close>

lemma high_bits_clear:
  fixes v :: uint16
  assumes "v \<le> 0x3FFF" and "14 \<le> n"
  shows "\<not> bit v n"
proof -
  have "v < 2 ^ 14"
    using assms(1) by (simp add: word_le_nat_alt word_less_nat_alt)
  then have "take_bit 14 v = v"
    by (simp add: less_mask_eq take_bit_eq_mask)
  then have "bit v n = bit (take_bit 14 v) n"
    by simp
  then show ?thesis
    using assms(2) by (simp add: bit_take_bit_iff)
qed

lemma seven_bit_mask: "(0x7F :: 'a::len word) = mask 7"
  by (simp add: mask_eq_decr_exp)

text \<open>
  C3. Every value of at most 16383, split into \<open>msb\<close> and \<open>lsb\<close> as
  \<^verbatim>\<open>setRotaryValue\<close> does and put together again as the rotary handler does,
  comes back unchanged.
\<close>

theorem split_reconstruct_roundtrip:
  assumes "v \<le> 0x3FFF"
  shows "highRezVal (value_msb v) (value_lsb v) = v"
  unfolding highRezVal_def value_msb_def value_lsb_def seven_bit_mask
proof (rule bit_word_eqI)
  fix n
  assume n: "n < LENGTH(16)"
  let ?r = "ucast (push_bit 7 (ucast (ucast (drop_bit 7 v AND mask 7 :: 16 word) AND mask 7 :: 8 word) :: 32 word)
                   OR (ucast (ucast (v AND mask 7) AND mask 7 :: 8 word) :: 32 word)) :: 16 word"
  consider "n < 7" | "7 \<le> n" "n < 14" | "14 \<le> n"
    by linarith
  then show "bit ?r n = bit v n"
  proof cases
    case 1
    then show ?thesis
      by (simp add: bit_simps)
  next
    case 2
    then have "n - 7 < 7" "n - 7 < 8" "n - 7 < 16" "n - 7 < 32" "\<not> n < 7"
      by simp_all
    then show ?thesis
      using 2 by (simp add: bit_simps)
  next
    case 3
    then have "\<not> bit v n"
      using high_bits_clear [OF assms] by simp
    moreover have "\<not> n - 7 < 7" "\<not> n < 7"
      using 3 by simp_all
    ultimately show ?thesis
      using 3 n by (simp add: bit_simps)
  qed
qed

theorem split_reconstruct_roundtrip_witness:
  "(8208 :: uint16) \<le> 0x3FFF \<and> highRezVal (value_msb 8208) (value_lsb 8208) = 8208"
  using split_reconstruct_roundtrip [of 8208] by simp

section \<open>Outbound rotary values\<close>

text \<open>
  C7. With rotary enabled and an output attached, \<^verbatim>\<open>setRotaryValue\<close> sends
  exactly two frames of three bytes: first the prefix with the low seven bits,
  then the frame of the encoder with the next seven bits.
\<close>

theorem setRotaryValue_lsb_prefix_first:
  assumes "rotaryEnabled e" and "mMidiOut e"
  shows "setRotaryValue e v =
           [[0xB0, 0x58, ucast (v AND 0x7F)], [0xB0, pos e, ucast (drop_bit 7 v AND 0x7F)]]"
  using assms by (simp add: setRotaryValue_def sendToRotary_def value_msb_def value_lsb_def)

theorem setRotaryValue_lsb_prefix_first_witness:
  "setRotaryValue
     (\<lparr>mMidiOut = True, pos = 5, rotaryEnabled = True, switchEnabled = False,
       mELSwitchParamChange = None, mELRotaryParamChange = None,
       updateSwitchParam = None, updateRotaryParam = None\<rparr> :: real Encoder) 8208 =
   [[0xB0, 0x58, 0x10], [0xB0, 5, 0x40]]"
  using setRotaryValue_lsb_prefix_first
    [of "\<lparr>mMidiOut = True, pos = 5, rotaryEnabled = True, switchEnabled = False,
          mELSwitchParamChange = None, mELRotaryParamChange = None,
          updateSwitchParam = None, updateRotaryParam = None\<rparr> :: real Encoder" 8208]
  by simp

section \<open>What a parameter write leaves alone\<close>

lemma sendMessage_fields [simp]:
  "mEncoders (sendMessage fs w) = mEncoders w"
  "mHighResVelLowByte (sendMessage fs w) = mHighResVelLowByte w"
  "mChannelMidiIn (sendMessage fs w) = mChannelMidiIn w"
  "floatParams (sendMessage fs w) = floatParams w"
  "intParams (sendMessage fs w) = intParams w"
  "boolParams (sendMessage fs w) = boolParams w"
  "nextListener (sendMessage fs w) = nextListener w"
  "sent (sendMessage fs w) = sent w @ fs"
  by (simp_all add: sendMessage_def)

lemma sendMessage_twice: "sendMessage fs (sendMessage gs w) = sendMessage (gs @ fs) w"
  by (simp add: sendMessage_def)

lemma sendMessage_Nil [simp]: "sendMessage [] w = w"
  by (simp add: sendMessage_def)

lemma sendMessage_alt: "sendMessage fs w = w\<lparr>sent := sent w @ fs\<rparr>"
  by (simp add: sendMessage_def)

text \<open>
  The listeners only send: running all of them commutes with every change \<open>g\<close>
  of the state that keeps the encoders and commutes with sending.
\<close>

lemma float_listeners_commute:
  assumes enc: "\<And>w. mEncoders (g w) = mEncoders w"
    and snd: "\<And>fs w. g (sendMessage fs w) = sendMessage fs (g w)"
  shows "foldl (\<lambda>w' (tok, idx, pMin, pMax). rotaryFloatListener lib idx pMin pMax v w') (g w) ls =
         g (foldl (\<lambda>w' (tok, idx, pMin, pMax). rotaryFloatListener lib idx pMin pMax v w') w ls)"
proof (induction ls arbitrary: w)
  case Nil
  show ?case by simp
next
  case (Cons l ls)
  obtain tok idx pMin pMax where l: "l = (tok, idx, pMin, pMax)"
    by (cases l) auto
  have "rotaryFloatListener lib idx pMin pMax v (g w) = g (rotaryFloatListener lib idx pMin pMax v w)"
    by (simp add: rotaryFloatListener_def enc snd)
  then show ?case
    using Cons.IH l by simp
qed

lemma int_listeners_commute:
  assumes enc: "\<And>w. mEncoders (g w) = mEncoders w"
    and snd: "\<And>fs w. g (sendMessage fs w) = sendMessage fs (g w)"
  shows "foldl (\<lambda>w' (tok, idx, pMin, pMax). rotaryIntListener lib idx pMin pMax v w') (g w) ls =
         g (foldl (\<lambda>w' (tok, idx, pMin, pMax). rotaryIntListener lib idx pMin pMax v w') w ls)"
proof (induction ls arbitrary: w)
  case Nil
  show ?case by simp
next
  case (Cons l ls)
  obtain tok idx pMin pMax where l: "l = (tok, idx, pMin, pMax)"
    by (cases l) auto
  have "rotaryIntListener lib idx pMin pMax v (g w) = g (rotaryIntListener lib idx pMin pMax v w)"
    by (simp add: rotaryIntListener_def enc snd)
  then show ?case
    using Cons.IH l by simp
qed

lemma bool_listeners_commute:
  assumes enc: "\<And>w. mEncoders (g w) = mEncoders w"
    and snd: "\<And>fs w. g (sendMessage fs w) = sendMessage fs (g w)"
  shows "foldl (\<lambda>w' (tok, idx). switchBoolListener idx v w') (g w) ls =
         g (foldl (\<lambda>w' (tok, idx). switchBoolListener idx v w') w ls)"
proof (induction ls arbitrary: w)
  case Nil
  show ?case by simp
next
  case (Cons l ls)
  obtain tok idx where l: "l = (tok, idx)"
    by (cases l) auto
  have "switchBoolListener idx v (g w) = g (switchBoolListener idx v w)"
    by (simp add: switchBoolListener_def enc snd)
  then show ?case
    using Cons.IH l by simp
qed

lemma setFloat_commute:
  assumes enc: "\<And>w. mEncoders (g w) = mEncoders w"
    and snd: "\<And>fs w. g (sendMessage fs w) = sendMessage fs (g w)"
    and par: "\<And>w. floatParams (g w) = floatParams w"
    and upd: "\<And>F w. (g w)\<lparr>floatParams := F\<rparr> = g (w\<lparr>floatParams := F\<rparr>)"
  shows "setFloat lib pid v (g w) = g (setFloat lib pid v w)"
  unfolding setFloat_def par upd
  by (rule float_listeners_commute [OF enc snd])

lemma setInt_commute:
  assumes enc: "\<And>w. mEncoders (g w) = mEncoders w"
    and snd: "\<And>fs w. g (sendMessage fs w) = sendMessage fs (g w)"
    and par: "\<And>w. intParams (g w) = intParams w"
    and upd: "\<And>F w. (g w)\<lparr>intParams := F\<rparr> = g (w\<lparr>intParams := F\<rparr>)"
  shows "setInt lib pid v (g w) = g (setInt lib pid v w)"
  unfolding setInt_def par upd
  by (rule int_listeners_commute [OF enc snd])

lemma setBool_commute:
  assumes enc: "\<And>w. mEncoders (g w) = mEncoders w"
    and snd: "\<And>fs w. g (sendMessage fs w) = sendMessage fs (g w)"
    and par: "\<And>w. boolParams (g w) = boolParams w"
    and upd: "\<And>F w. (g w)\<lparr>boolParams := F\<rparr> = g (w\<lparr>boolParams := F\<rparr>)"
  shows "setBool pid v (g w) = g (setBool pid v w)"
  unfolding setBool_def par upd
  by (rule bool_listeners_commute [OF enc snd])

text \<open>Hence a parameter write is the store of the value followed by some frames.\<close>

lemma setFloat_send:
  "\<exists>fs. setFloat lib pid v w =
     sendMessage fs (w\<lparr>floatParams := (floatParams w)(pid := (floatParams w pid)\<lparr>f_value := v\<rparr>)\<rparr>)"
proof -
  have "\<exists>fs. foldl (\<lambda>w' (tok, idx, pMin, pMax). rotaryFloatListener lib idx pMin pMax v w') u ls
          = sendMessage fs u" for u ls
  proof (induction ls arbitrary: u)
    case Nil
    have "u = sendMessage [] u" by simp
    then show ?case by (metis foldl_Nil)
  next
    case (Cons l ls)
    obtain tok idx pMin pMax where l: "l = (tok, idx, pMin, pMax)"
      by (cases l) auto
    obtain gs where gs: "rotaryFloatListener lib idx pMin pMax v u = sendMessage gs u"
      unfolding rotaryFloatListener_def by (metis sendMessage_Nil)
    obtain fs where "foldl (\<lambda>w' (tok, idx, pMin, pMax). rotaryFloatListener lib idx pMin pMax v w')
        (sendMessage gs u) ls = sendMessage fs (sendMessage gs u)"
      using Cons.IH by blast
    then show ?case
      using l gs by (auto simp add: sendMessage_twice)
  qed
  then show ?thesis
    unfolding setFloat_def by blast
qed

lemma setInt_send:
  "\<exists>fs. setInt lib pid v w =
     sendMessage fs (w\<lparr>intParams := (intParams w)(pid := (intParams w pid)\<lparr>i_value := v\<rparr>)\<rparr>)"
proof -
  have "\<exists>fs. foldl (\<lambda>w' (tok, idx, pMin, pMax). rotaryIntListener lib idx pMin pMax v w') u ls
          = sendMessage fs u" for u ls
  proof (induction ls arbitrary: u)
    case Nil
    have "u = sendMessage [] u" by simp
    then show ?case by (metis foldl_Nil)
  next
    case (Cons l ls)
    obtain tok idx pMin pMax where l: "l = (tok, idx, pMin, pMax)"
      by (cases l) auto
    obtain gs where gs: "rotaryIntListener lib idx pMin pMax v u = sendMessage gs u"
      unfolding rotaryIntListener_def by (metis sendMessage_Nil)
    obtain fs where "foldl (\<lambda>w' (tok, idx, pMin, pMax). rotaryIntListener lib idx pMin pMax v w')
        (sendMessage gs u) ls = sendMessage fs (sendMessage gs u)"
      using Cons.IH by blast
    then show ?case
      using l gs by (auto simp add: sendMessage_twice)
  qed
  then show ?thesis
    unfolding setInt_def by blast
qed

lemma setBool_send:
  "\<exists>fs. setBool pid v w =
     sendMessage fs (w\<lparr>boolParams := (boolParams w)(pid := (boolParams w pid)\<lparr>b_value := v\<rparr>)\<rparr>)"
proof -
  have "\<exists>fs. foldl (\<lambda>w' (tok, idx). switchBoolListener idx v w') u ls = sendMessage fs u" for u ls
  proof (induction ls arbitrary: u)
    case Nil
    have "u = sendMessage [] u" by simp
    then show ?case by (metis foldl_Nil)
  next
    case (Cons l ls)
    obtain tok idx where l: "l = (tok, idx)"
      by (cases l) auto
    obtain gs where gs: "switchBoolListener idx v u = sendMessage gs u"
      unfolding switchBoolListener_def by (metis sendMessage_Nil)
    obtain fs where "foldl (\<lambda>w' (tok, idx). switchBoolListener idx v w')
        (sendMessage gs u) ls = sendMessage fs (sendMessage gs u)"
      using Cons.IH by blast
    then show ?case
      using l gs by (auto simp add: sendMessage_twice)
  qed
  then show ?thesis
    unfolding setBool_def by blast
qed

lemma setFloat_fields [simp]:
  "mEncoders (setFloat lib pid v w) = mEncoders w"
  "mHighResVelLowByte (setFloat lib pid v w) = mHighResVelLowByte w"
  "mChannelMidiIn (setFloat lib pid v w) = mChannelMidiIn w"
  "nextListener (setFloat lib pid v w) = nextListener w"
  "intParams (setFloat lib pid v w) = intParams w"
  "boolParams (setFloat lib pid v w) = boolParams w"
  "floatParams (setFloat lib pid v w) = (floatParams w)(pid := (floatParams w pid)\<lparr>f_value := v\<rparr>)"
  using setFloat_send [of lib pid v w] by auto

lemma setInt_fields [simp]:
  "mEncoders (setInt lib pid v w) = mEncoders w"
  "mHighResVelLowByte (setInt lib pid v w) = mHighResVelLowByte w"
  "mChannelMidiIn (setInt lib pid v w) = mChannelMidiIn w"
  "nextListener (setInt lib pid v w) = nextListener w"
  "floatParams (setInt lib pid v w) = floatParams w"
  "boolParams (setInt lib pid v w) = boolParams w"
  "intParams (setInt lib pid v w) = (intParams w)(pid := (intParams w pid)\<lparr>i_value := v\<rparr>)"
  using setInt_send [of lib pid v w] by auto

lemma setBool_fields [simp]:
  "mEncoders (setBool pid v w) = mEncoders w"
  "mHighResVelLowByte (setBool pid v w) = mHighResVelLowByte w"
  "mChannelMidiIn (setBool pid v w) = mChannelMidiIn w"
  "nextListener (setBool pid v w) = nextListener w"
  "floatParams (setBool pid v w) = floatParams w"
  "intParams (setBool pid v w) = intParams w"
  "boolParams (setBool pid v w) = (boolParams w)(pid := (boolParams w pid)\<lparr>b_value := v\<rparr>)"
  using setBool_send [of pid v w] by auto

lemma invoke_fields [simp]:
  "mEncoders (invoke lib h msb lsb w) = mEncoders w"
  "mHighResVelLowByte (invoke lib h msb lsb w) = mHighResVelLowByte w"
  "mChannelMidiIn (invoke lib h msb lsb w) = mChannelMidiIn w"
  "nextListener (invoke lib h msb lsb w) = nextListener w"
  by (cases h; simp add: invoke_def Let_def)+

lemma invoke_lowbyte:
  "invoke lib h msb lsb (w\<lparr>mHighResVelLowByte := x\<rparr>) =
   (invoke lib h msb lsb w)\<lparr>mHighResVelLowByte := x\<rparr>"
proof (cases h)
  case (RotaryFloatUpdate pid pMin pMax)
  have "setFloat lib pid v (w\<lparr>mHighResVelLowByte := x\<rparr>) =
        (setFloat lib pid v w)\<lparr>mHighResVelLowByte := x\<rparr>" for v
    by (rule setFloat_commute [where g = "\<lambda>w. w\<lparr>mHighResVelLowByte := x\<rparr>"])
      (simp_all add: sendMessage_def)
  then show ?thesis
    using RotaryFloatUpdate by (simp add: invoke_def Let_def)
next
  case (RotaryIntUpdate pid pMin pMax)
  have "setInt lib pid v (w\<lparr>mHighResVelLowByte := x\<rparr>) =
        (setInt lib pid v w)\<lparr>mHighResVelLowByte := x\<rparr>" for v
    by (rule setInt_commute [where g = "\<lambda>w. w\<lparr>mHighResVelLowByte := x\<rparr>"])
      (simp_all add: sendMessage_def)
  then show ?thesis
    using RotaryIntUpdate by (simp add: invoke_def Let_def)
next
  case (SwitchBoolUpdate pid)
  have "setBool pid v (w\<lparr>mHighResVelLowByte := x\<rparr>) =
        (setBool pid v w)\<lparr>mHighResVelLowByte := x\<rparr>" for v
    by (rule setBool_commute [where g = "\<lambda>w. w\<lparr>mHighResVelLowByte := x\<rparr>"])
      (simp_all add: sendMessage_def)
  then show ?thesis
    using SwitchBoolUpdate by (simp add: invoke_def)
qed

lemma invoke_queue:
  "invoke lib h msb lsb (w\<lparr>mChannelMidiIn := q\<rparr>) =
   (invoke lib h msb lsb w)\<lparr>mChannelMidiIn := q\<rparr>"
proof (cases h)
  case (RotaryFloatUpdate pid pMin pMax)
  have "setFloat lib pid v (w\<lparr>mChannelMidiIn := q\<rparr>) =
        (setFloat lib pid v w)\<lparr>mChannelMidiIn := q\<rparr>" for v
    by (rule setFloat_commute [where g = "\<lambda>w. w\<lparr>mChannelMidiIn := q\<rparr>"])
      (simp_all add: sendMessage_def)
  then show ?thesis
    using RotaryFloatUpdate by (simp add: invoke_def Let_def)
next
  case (RotaryIntUpdate pid pMin pMax)
  have "setInt lib pid v (w\<lparr>mChannelMidiIn := q\<rparr>) =
        (setInt lib pid v w)\<lparr>mChannelMidiIn := q\<rparr>" for v
    by (rule setInt_commute [where g = "\<lambda>w. w\<lparr>mChannelMidiIn := q\<rparr>"])
      (simp_all add: sendMessage_def)
  then show ?thesis
    using RotaryIntUpdate by (simp add: invoke_def Let_def)
next
  case (SwitchBoolUpdate pid)
  have "setBool pid v (w\<lparr>mChannelMidiIn := q\<rparr>) =
        (setBool pid v w)\<lparr>mChannelMidiIn := q\<rparr>" for v
    by (rule setBool_commute [where g = "\<lambda>w. w\<lparr>mChannelMidiIn := q\<rparr>"])
      (simp_all add: sendMessage_def)
  then show ?thesis
    using SwitchBoolUpdate by (simp add: invoke_def)
qed

lemma same_lowbyte: "mHighResVelLowByte w = x \<Longrightarrow> w\<lparr>mHighResVelLowByte := x\<rparr> = w"
  by auto

lemma same_queue: "mChannelMidiIn w = q \<Longrightarrow> w\<lparr>mChannelMidiIn := q\<rparr> = w"
  by auto

section \<open>The state of the concrete runs\<close>

lemma upt16: "[0..<16] = [0, 1, 2, 3, 4, 5, 6, 7, 8, 9, 10, 11, 12, 13, 14, 15]"
  by (simp add: upt_rec)

lemma example_start_fields:
  "mChannelMidiIn example_start = []"
  "mHighResVelLowByte example_start = 0"
  "sent example_start = []"
  "nextListener example_start = 0"
  "floatParams example_start = (\<lambda>_. \<lparr>f_value = 1 / 2, f_min = 0, f_max = 1, f_listeners = []\<rparr>)"
  "intParams example_start = (\<lambda>_. \<lparr>i_value = 5, i_min = 0, i_max = 10, i_listeners = []\<rparr>)"
  "boolParams example_start = (\<lambda>_. \<lparr>b_value = True, b_listeners = []\<rparr>)"
  by (simp_all add: example_start_def setup_impl_def construct_def upt16)

lemma example_start_encoders:
  "mEncoders example_start =
     map (\<lambda>i. \<lparr>mMidiOut = True, pos = i, rotaryEnabled = False, switchEnabled = False,
           mELSwitchParamChange = None, mELRotaryParamChange = None,
           updateSwitchParam = None, updateRotaryParam = None\<rparr>)
       [0, 1, 2, 3, 4, 5, 6, 7, 8, 9, 10, 11, 12, 13, 14, 15]"
  by (simp add: example_start_def setup_impl_def construct_def upt16 eval_nat_numeral)

section \<open>Inbound messages\<close>

lemma dispatch_switch_out_of_range:
  assumes "getCommand m = 0xB" and "getChannel m = 0x1" and "16 \<le> unat (controller m)"
  shows "dispatch lib m w = Inl (OutOfBounds (unat (controller m)))"
  using assms by (simp add: dispatch_def mEncoders_size_def Let_def)

text \<open>
  C1. The claim is that a message of command \<open>0xB\<close> and channel \<open>0x1\<close> with a
  controller byte of 16 or more is ignored. The switch branch of \<^verbatim>\<open>update\<close>
  indexes \<^verbatim>\<open>mEncoders\<close> with the controller byte unchecked: on the frame
  \<open>B1 10 40\<close> the run reads outside the array and does not return the state
  unchanged.
\<close>

theorem update_switch_slot_16_out_of_bounds:
  "update exactLib (midi_callback [0xB1, 0x10, 0x40] example_start) = Inl (OutOfBounds 16)"
  by (simp add: update_def midi_callback_def example_start_fields dispatch_switch_out_of_range
      getCommand_def getChannel_def)

lemma dispatch_rotary_low_byte:
  assumes "getCommand m = 0xB" and "getChannel m = 0x0" and "controller m \<noteq> 0x58"
  shows "unat (controller m) < 16 \<Longrightarrow>
           \<exists>w'. dispatch lib m w = Inr w' \<and> mHighResVelLowByte w' = 0"
    and "16 \<le> unat (controller m) \<Longrightarrow> dispatch lib m w = Inr w"
  using assms by (simp_all add: dispatch_def mEncoders_size_def Let_def)

section \<open>What assigning and clearing change\<close>

lemma unsubscribe_fields [simp]:
  "mEncoders (unsubscribe h w) = mEncoders w"
  "mHighResVelLowByte (unsubscribe h w) = mHighResVelLowByte w"
  "mChannelMidiIn (unsubscribe h w) = mChannelMidiIn w"
  "sent (unsubscribe h w) = sent w"
  "nextListener (unsubscribe h w) = nextListener w"
  by (simp_all add: unsubscribe_def split: option.splits ofEventListener.splits)

lemma unsubscribe_None [simp]: "unsubscribe None w = w"
  by (simp add: unsubscribe_def)

lemma unsubscribe_params:
  "boolParams (unsubscribe h w) =
     (case h of
        Some (BoolSub pid tok) \<Rightarrow>
          (boolParams w)(pid := (boolParams w pid)
             \<lparr>b_listeners := filter (\<lambda>l. fst l \<noteq> tok) (b_listeners (boolParams w pid))\<rparr>)
      | _ \<Rightarrow> boolParams w)"
  "intParams (unsubscribe h w) =
     (case h of
        Some (IntSub pid tok) \<Rightarrow>
          (intParams w)(pid := (intParams w pid)
             \<lparr>i_listeners := filter (\<lambda>l. fst l \<noteq> tok) (i_listeners (intParams w pid))\<rparr>)
      | _ \<Rightarrow> intParams w)"
  "floatParams (unsubscribe h w) =
     (case h of
        Some (FloatSub pid tok) \<Rightarrow>
          (floatParams w)(pid := (floatParams w pid)
             \<lparr>f_listeners := filter (\<lambda>l. fst l \<noteq> tok) (f_listeners (floatParams w pid))\<rparr>)
      | _ \<Rightarrow> floatParams w)"
  by (simp_all add: unsubscribe_def split: option.splits ofEventListener.splits)

lemma setRotaryState_fst: "fst (setRotaryState en force e) = e\<lparr>rotaryEnabled := en\<rparr>"
  by (auto simp add: setRotaryState_def)

lemma setSwitchState_fst: "fst (setSwitchState en force e) = e\<lparr>switchEnabled := en\<rparr>"
  by (auto simp add: setSwitchState_def)

lemma setRotaryState_enc_eq:
  "setRotaryState_enc idx en force w =
     sendMessage (snd (setRotaryState en force (mEncoders w ! idx)))
       (w\<lparr>mEncoders := (mEncoders w)[idx := (mEncoders w ! idx)\<lparr>rotaryEnabled := en\<rparr>]\<rparr>)"
  using setRotaryState_fst [of en force "mEncoders w ! idx"]
  by (simp add: setRotaryState_enc_def split_def)

lemma setSwitchState_enc_eq:
  "setSwitchState_enc idx en force w =
     sendMessage (snd (setSwitchState en force (mEncoders w ! idx)))
       (w\<lparr>mEncoders := (mEncoders w)[idx := (mEncoders w ! idx)\<lparr>switchEnabled := en\<rparr>]\<rparr>)"
  using setSwitchState_fst [of en force "mEncoders w ! idx"]
  by (simp add: setSwitchState_enc_def split_def)

lemma setEncoderPhenotype_flags [simp]:
  "setEncoderPhenotype (e\<lparr>rotaryEnabled := b\<rparr>) p = setEncoderPhenotype e p"
  "setEncoderPhenotype (e\<lparr>switchEnabled := b\<rparr>) p = setEncoderPhenotype e p"
  "setEncoderPhenotype (e\<lparr>mELRotaryParamChange := h\<rparr>) p = setEncoderPhenotype e p"
  "setEncoderPhenotype (e\<lparr>mELSwitchParamChange := h\<rparr>) p = setEncoderPhenotype e p"
  by (simp_all add: setEncoderPhenotype_def)

lemma setParam_float_enc_encoders:
  "mEncoders (setParam_float_enc lib idx pid w) =
     (mEncoders w)[idx := (mEncoders w ! idx)
        \<lparr>rotaryEnabled := True,
         updateRotaryParam :=
           Some (RotaryFloatUpdate pid (f_min (floatParams w pid)) (f_max (floatParams w pid))),
         mELRotaryParamChange := Some (FloatSub pid (nextListener w))\<rparr>]"
proof (cases "idx < length (mEncoders w)")
  case True
  then show ?thesis
    by (simp add: setParam_float_enc_def Let_def setRotaryState_enc_eq newFloatListener_def
        assignRotaryListener_def)
next
  case False
  then show ?thesis
    by (simp add: setParam_float_enc_def Let_def setRotaryState_enc_eq newFloatListener_def
        assignRotaryListener_def list_update_beyond)
qed

lemma setParam_int_enc_encoders:
  "mEncoders (setParam_int_enc lib idx pid w) =
     (mEncoders w)[idx := (mEncoders w ! idx)
        \<lparr>rotaryEnabled := True,
         updateRotaryParam :=
           Some (RotaryIntUpdate pid (i_min (intParams w pid)) (i_max (intParams w pid))),
         mELRotaryParamChange := Some (IntSub pid (nextListener w))\<rparr>]"
proof (cases "idx < length (mEncoders w)")
  case True
  then show ?thesis
    by (simp add: setParam_int_enc_def Let_def setRotaryState_enc_eq newIntListener_def
        assignRotaryListener_def)
next
  case False
  then show ?thesis
    by (simp add: setParam_int_enc_def Let_def setRotaryState_enc_eq newIntListener_def
        assignRotaryListener_def list_update_beyond)
qed

lemma setParam_bool_enc_encoders:
  "mEncoders (setParam_bool_enc idx pid w) =
     (mEncoders w)[idx := (mEncoders w ! idx)
        \<lparr>switchEnabled := True,
         updateSwitchParam := Some (SwitchBoolUpdate pid),
         mELSwitchParamChange := Some (BoolSub pid (nextListener w))\<rparr>]"
proof (cases "idx < length (mEncoders w)")
  case True
  then show ?thesis
    by (simp add: setParam_bool_enc_def Let_def setSwitchState_enc_eq newBoolListener_def
        assignSwitchListener_def)
next
  case False
  then show ?thesis
    by (simp add: setParam_bool_enc_def Let_def setSwitchState_enc_eq newBoolListener_def
        assignSwitchListener_def list_update_beyond)
qed

lemma clearParam_enc_encoders:
  "mEncoders (clearParam_enc idx force w) =
     (mEncoders w)[idx := (mEncoders w ! idx)
        \<lparr>rotaryEnabled := False, mELRotaryParamChange := None,
         switchEnabled := False, mELSwitchParamChange := None\<rparr>]"
proof (cases "idx < length (mEncoders w)")
  case True
  then show ?thesis
    by (simp add: clearParam_enc_def Let_def setRotaryState_enc_eq setSwitchState_enc_eq)
next
  case False
  then show ?thesis
    by (simp add: clearParam_enc_def Let_def setRotaryState_enc_eq setSwitchState_enc_eq
        list_update_beyond)
qed

lemma setParam_float_enc_params:
  "boolParams (setParam_float_enc lib idx pid w) =
     boolParams (unsubscribe (mELRotaryParamChange (mEncoders w ! idx)) w)"
  "intParams (setParam_float_enc lib idx pid w) =
     intParams (unsubscribe (mELRotaryParamChange (mEncoders w ! idx)) w)"
  "floatParams (setParam_float_enc lib idx pid w) =
     floatParams (unsubscribe (mELRotaryParamChange (mEncoders w ! idx))
       (snd (newFloatListener pid idx (f_min (floatParams w pid)) (f_max (floatParams w pid)) w)))"
  "nextListener (setParam_float_enc lib idx pid w) = Suc (nextListener w)"
proof -
  show "nextListener (setParam_float_enc lib idx pid w) = Suc (nextListener w)"
    by (simp add: setParam_float_enc_def Let_def setRotaryState_enc_eq newFloatListener_def
        assignRotaryListener_def)
  show "boolParams (setParam_float_enc lib idx pid w) =
     boolParams (unsubscribe (mELRotaryParamChange (mEncoders w ! idx)) w)"
    by (cases "idx < length (mEncoders w)")
      (simp_all add: setParam_float_enc_def Let_def setRotaryState_enc_eq newFloatListener_def
        assignRotaryListener_def list_update_beyond unsubscribe_params
        split: option.splits ofEventListener.splits)
  show "intParams (setParam_float_enc lib idx pid w) =
     intParams (unsubscribe (mELRotaryParamChange (mEncoders w ! idx)) w)"
    by (cases "idx < length (mEncoders w)")
      (simp_all add: setParam_float_enc_def Let_def setRotaryState_enc_eq newFloatListener_def
        assignRotaryListener_def list_update_beyond unsubscribe_params
        split: option.splits ofEventListener.splits)
  show "floatParams (setParam_float_enc lib idx pid w) =
     floatParams (unsubscribe (mELRotaryParamChange (mEncoders w ! idx))
       (snd (newFloatListener pid idx (f_min (floatParams w pid)) (f_max (floatParams w pid)) w)))"
    by (cases "idx < length (mEncoders w)")
      (simp_all add: setParam_float_enc_def Let_def setRotaryState_enc_eq newFloatListener_def
        assignRotaryListener_def list_update_beyond unsubscribe_params
        split: option.splits ofEventListener.splits)
qed

lemma setParam_bool_enc_params:
  "floatParams (setParam_bool_enc idx pid w) =
     floatParams (unsubscribe (mELSwitchParamChange (mEncoders w ! idx)) w)"
  "intParams (setParam_bool_enc idx pid w) =
     intParams (unsubscribe (mELSwitchParamChange (mEncoders w ! idx)) w)"
  "boolParams (setParam_bool_enc idx pid w) =
     boolParams (unsubscribe (mELSwitchParamChange (mEncoders w ! idx))
       (snd (newBoolListener pid idx w)))"
  "nextListener (setParam_bool_enc idx pid w) = Suc (nextListener w)"
proof -
  show "nextListener (setParam_bool_enc idx pid w) = Suc (nextListener w)"
    by (simp add: setParam_bool_enc_def Let_def setSwitchState_enc_eq newBoolListener_def
        assignSwitchListener_def)
  show "floatParams (setParam_bool_enc idx pid w) =
     floatParams (unsubscribe (mELSwitchParamChange (mEncoders w ! idx)) w)"
    by (cases "idx < length (mEncoders w)")
      (simp_all add: setParam_bool_enc_def Let_def setSwitchState_enc_eq newBoolListener_def
        assignSwitchListener_def list_update_beyond unsubscribe_params
        split: option.splits ofEventListener.splits)
  show "intParams (setParam_bool_enc idx pid w) =
     intParams (unsubscribe (mELSwitchParamChange (mEncoders w ! idx)) w)"
    by (cases "idx < length (mEncoders w)")
      (simp_all add: setParam_bool_enc_def Let_def setSwitchState_enc_eq newBoolListener_def
        assignSwitchListener_def list_update_beyond unsubscribe_params
        split: option.splits ofEventListener.splits)
  show "boolParams (setParam_bool_enc idx pid w) =
     boolParams (unsubscribe (mELSwitchParamChange (mEncoders w ! idx))
       (snd (newBoolListener pid idx w)))"
    by (cases "idx < length (mEncoders w)")
      (simp_all add: setParam_bool_enc_def Let_def setSwitchState_enc_eq newBoolListener_def
        assignSwitchListener_def list_update_beyond unsubscribe_params
        split: option.splits ofEventListener.splits)
qed

lemma setParam_int_enc_params:
  "boolParams (setParam_int_enc lib idx pid w) =
     boolParams (unsubscribe (mELRotaryParamChange (mEncoders w ! idx)) w)"
  "floatParams (setParam_int_enc lib idx pid w) =
     floatParams (unsubscribe (mELRotaryParamChange (mEncoders w ! idx)) w)"
  "intParams (setParam_int_enc lib idx pid w) =
     intParams (unsubscribe (mELRotaryParamChange (mEncoders w ! idx))
       (snd (newIntListener pid idx (i_min (intParams w pid)) (i_max (intParams w pid)) w)))"
  "nextListener (setParam_int_enc lib idx pid w) = Suc (nextListener w)"
proof -
  show "nextListener (setParam_int_enc lib idx pid w) = Suc (nextListener w)"
    by (simp add: setParam_int_enc_def Let_def setRotaryState_enc_eq newIntListener_def
        assignRotaryListener_def)
  show "boolParams (setParam_int_enc lib idx pid w) =
     boolParams (unsubscribe (mELRotaryParamChange (mEncoders w ! idx)) w)"
    by (cases "idx < length (mEncoders w)")
      (simp_all add: setParam_int_enc_def Let_def setRotaryState_enc_eq newIntListener_def
        assignRotaryListener_def list_update_beyond unsubscribe_params
        split: option.splits ofEventListener.splits)
  show "floatParams (setParam_int_enc lib idx pid w) =
     floatParams (unsubscribe (mELRotaryParamChange (mEncoders w ! idx)) w)"
    by (cases "idx < length (mEncoders w)")
      (simp_all add: setParam_int_enc_def Let_def setRotaryState_enc_eq newIntListener_def
        assignRotaryListener_def list_update_beyond unsubscribe_params
        split: option.splits ofEventListener.splits)
  show "intParams (setParam_int_enc lib idx pid w) =
     intParams (unsubscribe (mELRotaryParamChange (mEncoders w ! idx))
       (snd (newIntListener pid idx (i_min (intParams w pid)) (i_max (intParams w pid)) w)))"
    by (cases "idx < length (mEncoders w)")
      (simp_all add: setParam_int_enc_def Let_def setRotaryState_enc_eq newIntListener_def
        assignRotaryListener_def list_update_beyond unsubscribe_params
        split: option.splits ofEventListener.splits)
qed

lemma clearParam_enc_params:
  "floatParams (clearParam_enc idx force w) =
     floatParams (unsubscribe (mELSwitchParamChange (mEncoders w ! idx))
       (unsubscribe (mELRotaryParamChange (mEncoders w ! idx)) w))"
  "intParams (clearParam_enc idx force w) =
     intParams (unsubscribe (mELSwitchParamChange (mEncoders w ! idx))
       (unsubscribe (mELRotaryParamChange (mEncoders w ! idx)) w))"
  "boolParams (clearParam_enc idx force w) =
     boolParams (unsubscribe (mELSwitchParamChange (mEncoders w ! idx))
       (unsubscribe (mELRotaryParamChange (mEncoders w ! idx)) w))"
proof -
  show "floatParams (clearParam_enc idx force w) =
     floatParams (unsubscribe (mELSwitchParamChange (mEncoders w ! idx))
       (unsubscribe (mELRotaryParamChange (mEncoders w ! idx)) w))"
    by (cases "idx < length (mEncoders w)")
      (simp_all add: clearParam_enc_def Let_def setRotaryState_enc_eq setSwitchState_enc_eq
        list_update_beyond unsubscribe_params split: option.splits ofEventListener.splits)
  show "intParams (clearParam_enc idx force w) =
     intParams (unsubscribe (mELSwitchParamChange (mEncoders w ! idx))
       (unsubscribe (mELRotaryParamChange (mEncoders w ! idx)) w))"
    by (cases "idx < length (mEncoders w)")
      (simp_all add: clearParam_enc_def Let_def setRotaryState_enc_eq setSwitchState_enc_eq
        list_update_beyond unsubscribe_params split: option.splits ofEventListener.splits)
  show "boolParams (clearParam_enc idx force w) =
     boolParams (unsubscribe (mELSwitchParamChange (mEncoders w ! idx))
       (unsubscribe (mELRotaryParamChange (mEncoders w ! idx)) w))"
    by (cases "idx < length (mEncoders w)")
      (simp_all add: clearParam_enc_def Let_def setRotaryState_enc_eq setSwitchState_enc_eq
        list_update_beyond unsubscribe_params split: option.splits ofEventListener.splits)
qed

lemma state_enc_length [simp]:
  "length (mEncoders (setRotaryState_enc idx en force w)) = length (mEncoders w)"
  "length (mEncoders (setSwitchState_enc idx en force w)) = length (mEncoders w)"
  "length (mEncoders (setParam_float_enc lib idx pid w)) = length (mEncoders w)"
  "length (mEncoders (setParam_int_enc lib idx pid w)) = length (mEncoders w)"
  "length (mEncoders (setParam_bool_enc idx pid w)) = length (mEncoders w)"
  "length (mEncoders (clearParam_enc idx force w)) = length (mEncoders w)"
  by (simp_all add: setRotaryState_enc_eq setSwitchState_enc_eq setParam_float_enc_encoders
      setParam_int_enc_encoders setParam_bool_enc_encoders clearParam_enc_encoders)

lemma setParams_loop_length [simp]:
  "length (mEncoders (setParams_loop lib idxs it w)) = length (mEncoders w)"
  by (induction lib idxs it w rule: setParams_loop.induct) (simp_all split: param_ref.splits)

lemma clearParam_enc_unforced_sent:
  assumes "idx < length (mEncoders w)"
  shows "sent (clearParam_enc idx False w) =
           sent w @ (if rotaryEnabled (mEncoders w ! idx) \<or> switchEnabled (mEncoders w ! idx)
                     then setEncoderPhenotype (mEncoders w ! idx) 2 else [])"
  using assms
  by (simp add: clearParam_enc_def Let_def setRotaryState_enc_eq setSwitchState_enc_eq
      setRotaryState_def setSwitchState_def)

lemma clearParam_enc_forced_sent:
  assumes "idx < length (mEncoders w)"
  shows "sent (clearParam_enc idx True w) =
           sent w @ (if switchEnabled (mEncoders w ! idx) then []
                     else setEncoderPhenotype (mEncoders w ! idx) 2)
                  @ setEncoderPhenotype (mEncoders w ! idx) 2"
  using assms
  by (simp add: clearParam_enc_def Let_def setRotaryState_enc_eq setSwitchState_enc_eq
      setRotaryState_def setSwitchState_def)

lemma setParams_loop_append:
  "length ps = length is1 \<Longrightarrow>
   setParams_loop lib (is1 @ is2) (ps @ qs) w =
     setParams_loop lib is2 qs (setParams_loop lib is1 ps w)"
proof (induction is1 arbitrary: ps w)
  case Nil
  then show ?case by simp
next
  case (Cons i is1)
  then obtain p ps' where ps: "ps = p # ps'" and len: "length ps' = length is1"
    by (cases ps) auto
  show ?case
    unfolding ps using Cons.IH [OF len] by simp
qed

lemma setParams_split:
  assumes "i < mEncoders_size" and "i < length grp"
  shows "setParams lib grp w =
           setParams_loop lib (i # [Suc i..<mEncoders_size]) (grp ! i # drop (Suc i) grp)
             (setParams_loop lib [0..<i] (take i grp) w)"
proof -
  have idxs: "[0..<mEncoders_size] = [0..<i] @ (i # [Suc i..<mEncoders_size])"
  proof -
    have "[0..<mEncoders_size] = [0..<i] @ [i..<mEncoders_size]"
      using assms(1) upt_add_eq_append [of 0 i "mEncoders_size - i"] by simp
    then show ?thesis
      using assms(1) by (simp add: upt_conv_Cons)
  qed
  have grp: "grp = take i grp @ (grp ! i # drop (Suc i) grp)"
    using assms(2) by (rule id_take_nth_drop)
  have len: "length (take i grp) = length [0..<i]"
    using assms(2) by simp
  have "setParams lib grp w =
          setParams_loop lib ([0..<i] @ (i # [Suc i..<mEncoders_size]))
            (take i grp @ (grp ! i # drop (Suc i) grp)) w"
    unfolding setParams_def by (simp only: idxs [symmetric] grp [symmetric])
  then show ?thesis
    by (simp only: setParams_loop_append [OF len])
qed

section \<open>The routing scenario\<close>

lemma update_two_frames:
  assumes "mHighResVelLowByte w = 0" and "mChannelMidiIn w = []"
    and "rotaryEnabled (mEncoders w ! 5)" and "updateRotaryParam (mEncoders w ! 5) = Some h"
  shows "update lib (midi_callback [0xB0, 0x05, 0x40] (midi_callback [0xB0, 0x58, 0x10] w)) =
           Inr (invoke lib h 0x40 0x10 w)"
proof -
  have "update lib (midi_callback [0xB0, 0x05, 0x40] (midi_callback [0xB0, 0x58, 0x10] w)) =
     Inr ((invoke lib h 0x40 0x10 w)\<lparr>mHighResVelLowByte := 0, mChannelMidiIn := []\<rparr>)"
    using assms
    by (simp add: update_def midi_callback_def dispatch_def getCommand_def getChannel_def
        mEncoders_size_def invoke_lowbyte invoke_queue)
  moreover have "(invoke lib h 0x40 0x10 w)\<lparr>mHighResVelLowByte := 0, mChannelMidiIn := []\<rparr>
      = invoke lib h 0x40 0x10 w"
    using assms(1,2) by (simp add: same_lowbyte same_queue)
  ultimately show ?thesis by simp
qed

lemma update_lone_frame:
  assumes "mHighResVelLowByte w = 0" and "mChannelMidiIn w = []"
    and "rotaryEnabled (mEncoders w ! 5)" and "updateRotaryParam (mEncoders w ! 5) = Some h"
  shows "update lib (midi_callback [0xB0, 0x05, 0x00] w) = Inr (invoke lib h 0x00 0x00 w)"
proof -
  have "update lib (midi_callback [0xB0, 0x05, 0x00] w) =
     Inr ((invoke lib h 0x00 0x00 w)\<lparr>mHighResVelLowByte := 0, mChannelMidiIn := []\<rparr>)"
    using assms
    by (simp add: update_def midi_callback_def dispatch_def getCommand_def getChannel_def
        mEncoders_size_def invoke_lowbyte invoke_queue)
  moreover have "(invoke lib h 0x00 0x00 w)\<lparr>mHighResVelLowByte := 0, mChannelMidiIn := []\<rparr>
      = invoke lib h 0x00 0x00 w"
    using assms(1,2) by (simp add: same_lowbyte same_queue)
  ultimately show ?thesis by simp
qed

lemma setParam_enc_untouched [simp]:
  "mHighResVelLowByte (setParam_float_enc lib idx pid w) = mHighResVelLowByte w"
  "mChannelMidiIn (setParam_float_enc lib idx pid w) = mChannelMidiIn w"
  "mHighResVelLowByte (setParam_bool_enc idx pid w) = mHighResVelLowByte w"
  "mChannelMidiIn (setParam_bool_enc idx pid w) = mChannelMidiIn w"
  by (simp_all add: setParam_float_enc_def setParam_bool_enc_def Let_def setRotaryState_enc_def
      setSwitchState_enc_def newFloatListener_def newBoolListener_def assignRotaryListener_def
      assignSwitchListener_def unsubscribe_def split_def
      split: option.splits ofEventListener.splits)

text \<open>
  C6. With no pending low byte, an empty queue and slot 5 rotary-enabled with
  handler \<open>h\<close>, the queued frames \<open>B0 58 10\<close> and \<open>B0 05 40\<close> make \<^verbatim>\<open>update\<close>
  call \<open>h\<close> exactly once, with \<open>msb = 0x40\<close> and \<open>lsb = 0x10\<close>, which \<open>h\<close>
  puts together to \<open>(0x40 << 7) | 0x10\<close>; the pending low byte is 0 afterwards,
  and a lone frame \<open>B0 05 00\<close> then calls \<open>h\<close> with \<open>(0, 0)\<close>, put together
  to 0.
\<close>

theorem high_res_routing_scenario:
  assumes "mHighResVelLowByte w = 0" and "mChannelMidiIn w = []"
    and "rotaryEnabled (mEncoders w ! 5)" and "updateRotaryParam (mEncoders w ! 5) = Some h"
  shows "update lib (midi_callback [0xB0, 0x05, 0x40] (midi_callback [0xB0, 0x58, 0x10] w)) =
           Inr (invoke lib h 0x40 0x10 w)
       \<and> highRezVal 0x40 0x10 = (push_bit 7 0x40 OR 0x10)
       \<and> mHighResVelLowByte (invoke lib h 0x40 0x10 w) = 0
       \<and> update lib (midi_callback [0xB0, 0x05, 0x00] (invoke lib h 0x40 0x10 w)) =
           Inr (invoke lib h 0x00 0x00 (invoke lib h 0x40 0x10 w))
       \<and> highRezVal 0x00 0x00 = 0"
proof -
  have "update lib (midi_callback [0xB0, 0x05, 0x00] (invoke lib h 0x40 0x10 w)) =
           Inr (invoke lib h 0x00 0x00 (invoke lib h 0x40 0x10 w))"
    by (rule update_lone_frame) (simp_all add: assms)
  moreover have "highRezVal 0x40 0x10 = (push_bit 7 0x40 OR 0x10)" "highRezVal 0x00 0x00 = 0"
    by (simp_all add: highRezVal_def)
  ultimately show ?thesis
    using update_two_frames [OF assms] assms(1) by simp
qed

theorem high_res_routing_scenario_witness:
  "mHighResVelLowByte (setParam_float_enc exactLib 5 0 example_start) = 0
   \<and> mChannelMidiIn (setParam_float_enc exactLib 5 0 example_start) = []
   \<and> rotaryEnabled (mEncoders (setParam_float_enc exactLib 5 0 example_start) ! 5)
   \<and> updateRotaryParam (mEncoders (setParam_float_enc exactLib 5 0 example_start) ! 5) =
       Some (RotaryFloatUpdate 0 0 1)
   \<and> update exactLib
         (midi_callback [0xB0, 0x05, 0x40]
            (midi_callback [0xB0, 0x58, 0x10] (setParam_float_enc exactLib 5 0 example_start))) =
       Inr (invoke exactLib (RotaryFloatUpdate 0 0 1) 0x40 0x10
              (setParam_float_enc exactLib 5 0 example_start))
   \<and> f_value (floatParams (invoke exactLib (RotaryFloatUpdate 0 0 1) 0x40 0x10
                (setParam_float_enc exactLib 5 0 example_start)) 0) = 8208 / 16383"
proof -
  have "f_value (floatParams (invoke exactLib (RotaryFloatUpdate 0 0 1) 0x40 0x10
                (setParam_float_enc exactLib 5 0 example_start)) 0) = 8208 / 16383"
    by (simp add: invoke_def highRezVal_def exactLib_def exact_ofMap_def TW_MAX_ENCODER_VALUE_def)
  then show ?thesis
    using high_res_routing_scenario
      [of "setParam_float_enc exactLib 5 0 example_start" "RotaryFloatUpdate 0 0 1" exactLib]
    by (simp add: setParam_float_enc_encoders example_start_encoders example_start_fields)
qed

text \<open>
  C2. The claim is that the pending low byte is 0 after every rotary message
  whose controller byte is not \<open>0x58\<close>, whatever that byte is; the comment
  at the member says it is reset after each CC message. The reset stands
  inside the bounds check: after the prefix \<open>B0 58 10\<close> the frame
  \<open>B0 20 40\<close> leaves the low byte at \<open>0x10\<close>, and a following lone
  \<open>B0 05 00\<close> for the bound slot 5 calls its handler with \<open>(0x00, 0x10)\<close>,
  put together to 16 where the sender meant 0.
\<close>

theorem rotary_cc_out_of_range_leaves_stale_low_byte:
  "update exactLib
     (midi_callback [0xB0, 0x20, 0x40] (midi_callback [0xB0, 0x58, 0x10] example_start)) =
   Inr (example_start\<lparr>mHighResVelLowByte := 0x10\<rparr>)
   \<and> update exactLib
       (midi_callback [0xB0, 0x05, 0x00]
          (midi_callback [0xB0, 0x20, 0x40]
             (midi_callback [0xB0, 0x58, 0x10] (setParam_float_enc exactLib 5 0 example_start)))) =
     Inr (invoke exactLib (RotaryFloatUpdate 0 0 1) 0x00 0x10
            (setParam_float_enc exactLib 5 0 example_start))
   \<and> highRezVal 0x00 0x10 = 16"
proof -
  let ?ws = "setParam_float_enc exactLib 5 0 example_start"
  have first: "update exactLib
     (midi_callback [0xB0, 0x20, 0x40] (midi_callback [0xB0, 0x58, 0x10] example_start)) =
   Inr (example_start\<lparr>mHighResVelLowByte := 0x10\<rparr>)"
    by (simp add: update_def midi_callback_def dispatch_def getCommand_def getChannel_def
        mEncoders_size_def example_start_fields same_queue)
  have "update exactLib
       (midi_callback [0xB0, 0x05, 0x00]
          (midi_callback [0xB0, 0x20, 0x40] (midi_callback [0xB0, 0x58, 0x10] ?ws))) =
     Inr ((invoke exactLib (RotaryFloatUpdate 0 0 1) 0x00 0x10 ?ws)
            \<lparr>mHighResVelLowByte := 0, mChannelMidiIn := []\<rparr>)"
    by (simp add: update_def midi_callback_def dispatch_def getCommand_def getChannel_def
        mEncoders_size_def invoke_lowbyte invoke_queue setParam_float_enc_encoders
        example_start_encoders example_start_fields)
  moreover have "(invoke exactLib (RotaryFloatUpdate 0 0 1) 0x00 0x10 ?ws)
            \<lparr>mHighResVelLowByte := 0, mChannelMidiIn := []\<rparr> =
         invoke exactLib (RotaryFloatUpdate 0 0 1) 0x00 0x10 ?ws"
    by (simp add: same_lowbyte same_queue example_start_fields)
  moreover have "highRezVal 0x00 0x10 = 16"
    by (simp add: highRezVal_def)
  ultimately show ?thesis
    using first by simp
qed

section \<open>The switch handler\<close>

lemma invoke_switch_value:
  "b_value (boolParams (invoke lib (SwitchBoolUpdate pid) msb lsb w) pid) = (63 < msb)"
proof -
  have "(63 < uint msb) = (63 < msb)"
    by (simp add: word_less_def)
  then show ?thesis
    by (simp add: invoke_def)
qed

text \<open>
  C9. The handler of a bound bool parameter, called with a byte \<open>b\<close>, writes
  \<open>True\<close> when \<open>b > 63\<close> and \<open>False\<close> otherwise; and \<^verbatim>\<open>update\<close> calls it with
  the value byte of a switch message for an enabled slot.
\<close>

theorem switch_byte_threshold:
  assumes "getCommand m = 0xB" and "getChannel m = 0x1" and "unat (controller m) < 16"
    and "switchEnabled (mEncoders w ! unat (controller m))"
    and "updateSwitchParam (mEncoders w ! unat (controller m)) = Some (SwitchBoolUpdate pid)"
  shows "b_value (boolParams (invoke lib (SwitchBoolUpdate pid) b lsb v) pid) = (63 < b)
       \<and> dispatch lib m w = Inr (invoke lib (SwitchBoolUpdate pid) (cc_value m) 0 w)
       \<and> b_value (boolParams (invoke lib (SwitchBoolUpdate pid) (cc_value m) 0 w) pid)
           = (63 < cc_value m)"
proof -
  have "\<not> mEncoders_size \<le> unat (controller m)"
    using assms(3) by (simp add: mEncoders_size_def)
  then have "dispatch lib m w = Inr (invoke lib (SwitchBoolUpdate pid) (cc_value m) 0 w)"
    using assms(1,2,4,5) by (simp add: dispatch_def Let_def)
  then show ?thesis
    by (simp add: invoke_switch_value)
qed

theorem switch_byte_threshold_witness:
  "switchEnabled (mEncoders (setParam_bool_enc 2 0 example_start) ! 2)
   \<and> b_value (boolParams (invoke exactLib (SwitchBoolUpdate 0) 64 0 example_start) 0)
   \<and> \<not> b_value (boolParams (invoke exactLib (SwitchBoolUpdate 0) 63 0 example_start) 0)
   \<and> dispatch exactLib \<lparr>command_channel = 0xB1, controller = 2, cc_value = 64\<rparr>
         (setParam_bool_enc 2 0 example_start) =
       Inr (invoke exactLib (SwitchBoolUpdate 0) 64 0 (setParam_bool_enc 2 0 example_start))"
  using switch_byte_threshold
    [of "\<lparr>command_channel = 0xB1, controller = 2, cc_value = 64\<rparr>"
        "setParam_bool_enc 2 0 example_start" 0 exactLib 64 0 example_start]
    switch_byte_threshold
    [of "\<lparr>command_channel = 0xB1, controller = 2, cc_value = 64\<rparr>"
        "setParam_bool_enc 2 0 example_start" 0 exactLib 63 0 example_start]
  by (simp add: getCommand_def getChannel_def setParam_bool_enc_encoders example_start_encoders)

section \<open>One binding of each class\<close>

text \<open>
  C5, as amended. Assigning a float or an int parameter to a slot sets the
  rotary flag, the rotary handler and the rotary subscription to those of the
  new parameter, registers the new listener with that parameter and releases
  the subscription the rotary member held; the switch flag, the switch handler
  and the switch subscription of the slot stay as they were, and so does the
  listener list of every bool parameter. Assigning a bool parameter does the
  same with the two classes exchanged. A slot thus has at most one rotary and
  at most one switch binding, and may have one of each.
\<close>

theorem setParam_replaces_same_class_only:
  assumes "idx < length (mEncoders w)"
  shows
    "(let e = mEncoders w ! idx;
          w' = setParam_float_enc lib idx pid w;
          e' = mEncoders w' ! idx
      in rotaryEnabled e'
       \<and> updateRotaryParam e' =
           Some (RotaryFloatUpdate pid (f_min (floatParams w pid)) (f_max (floatParams w pid)))
       \<and> mELRotaryParamChange e' = Some (FloatSub pid (nextListener w))
       \<and> switchEnabled e' = switchEnabled e
       \<and> updateSwitchParam e' = updateSwitchParam e
       \<and> mELSwitchParamChange e' = mELSwitchParamChange e
       \<and> ((\<forall>q t. mELRotaryParamChange e \<noteq> Some (BoolSub q t)) \<longrightarrow> boolParams w' = boolParams w)
       \<and> (\<forall>q t. mELRotaryParamChange e = Some (FloatSub q t) \<longrightarrow>
             t \<notin> fst ` set (f_listeners (floatParams w' q)))
       \<and> (\<forall>q t. mELRotaryParamChange e = Some (IntSub q t) \<longrightarrow>
             t \<notin> fst ` set (i_listeners (intParams w' q)))
       \<and> (mELRotaryParamChange e \<noteq> Some (FloatSub pid (nextListener w)) \<longrightarrow>
             (nextListener w, idx, f_min (floatParams w pid), f_max (floatParams w pid))
               \<in> set (f_listeners (floatParams w' pid))))
   \<and> (let e = mEncoders w ! idx;
          w' = setParam_bool_enc idx pid w;
          e' = mEncoders w' ! idx
      in switchEnabled e'
       \<and> updateSwitchParam e' = Some (SwitchBoolUpdate pid)
       \<and> mELSwitchParamChange e' = Some (BoolSub pid (nextListener w))
       \<and> rotaryEnabled e' = rotaryEnabled e
       \<and> updateRotaryParam e' = updateRotaryParam e
       \<and> mELRotaryParamChange e' = mELRotaryParamChange e
       \<and> ((\<forall>q t. mELSwitchParamChange e \<noteq> Some (FloatSub q t)) \<longrightarrow> floatParams w' = floatParams w)
       \<and> ((\<forall>q t. mELSwitchParamChange e \<noteq> Some (IntSub q t)) \<longrightarrow> intParams w' = intParams w)
       \<and> (\<forall>q t. mELSwitchParamChange e = Some (BoolSub q t) \<longrightarrow>
             t \<notin> fst ` set (b_listeners (boolParams w' q)))
       \<and> (mELSwitchParamChange e \<noteq> Some (BoolSub pid (nextListener w)) \<longrightarrow>
             (nextListener w, idx) \<in> set (b_listeners (boolParams w' pid))))
   \<and> (let e = mEncoders w ! idx;
          w' = setParam_int_enc lib idx pid w;
          e' = mEncoders w' ! idx
      in rotaryEnabled e'
       \<and> updateRotaryParam e' =
           Some (RotaryIntUpdate pid (i_min (intParams w pid)) (i_max (intParams w pid)))
       \<and> mELRotaryParamChange e' = Some (IntSub pid (nextListener w))
       \<and> switchEnabled e' = switchEnabled e
       \<and> updateSwitchParam e' = updateSwitchParam e
       \<and> mELSwitchParamChange e' = mELSwitchParamChange e
       \<and> ((\<forall>q t. mELRotaryParamChange e \<noteq> Some (BoolSub q t)) \<longrightarrow> boolParams w' = boolParams w)
       \<and> (\<forall>q t. mELRotaryParamChange e = Some (FloatSub q t) \<longrightarrow>
             t \<notin> fst ` set (f_listeners (floatParams w' q)))
       \<and> (\<forall>q t. mELRotaryParamChange e = Some (IntSub q t) \<longrightarrow>
             t \<notin> fst ` set (i_listeners (intParams w' q)))
       \<and> (mELRotaryParamChange e \<noteq> Some (IntSub pid (nextListener w)) \<longrightarrow>
             (nextListener w, idx, i_min (intParams w pid), i_max (intParams w pid))
               \<in> set (i_listeners (intParams w' pid))))"
proof -
  have float_part:
    "let e = mEncoders w ! idx;
         w' = setParam_float_enc lib idx pid w;
         e' = mEncoders w' ! idx
     in rotaryEnabled e'
       \<and> updateRotaryParam e' =
           Some (RotaryFloatUpdate pid (f_min (floatParams w pid)) (f_max (floatParams w pid)))
       \<and> mELRotaryParamChange e' = Some (FloatSub pid (nextListener w))
       \<and> switchEnabled e' = switchEnabled e
       \<and> updateSwitchParam e' = updateSwitchParam e
       \<and> mELSwitchParamChange e' = mELSwitchParamChange e
       \<and> ((\<forall>q t. mELRotaryParamChange e \<noteq> Some (BoolSub q t)) \<longrightarrow> boolParams w' = boolParams w)
       \<and> (\<forall>q t. mELRotaryParamChange e = Some (FloatSub q t) \<longrightarrow>
             t \<notin> fst ` set (f_listeners (floatParams w' q)))
       \<and> (\<forall>q t. mELRotaryParamChange e = Some (IntSub q t) \<longrightarrow>
             t \<notin> fst ` set (i_listeners (intParams w' q)))
       \<and> (mELRotaryParamChange e \<noteq> Some (FloatSub pid (nextListener w)) \<longrightarrow>
             (nextListener w, idx, f_min (floatParams w pid), f_max (floatParams w pid))
               \<in> set (f_listeners (floatParams w' pid)))"
    using assms
    by (auto simp add: Let_def setParam_float_enc_encoders setParam_float_enc_params
        unsubscribe_params newFloatListener_def split: option.splits ofEventListener.splits)
  have bool_part:
    "let e = mEncoders w ! idx;
         w' = setParam_bool_enc idx pid w;
         e' = mEncoders w' ! idx
     in switchEnabled e'
       \<and> updateSwitchParam e' = Some (SwitchBoolUpdate pid)
       \<and> mELSwitchParamChange e' = Some (BoolSub pid (nextListener w))
       \<and> rotaryEnabled e' = rotaryEnabled e
       \<and> updateRotaryParam e' = updateRotaryParam e
       \<and> mELRotaryParamChange e' = mELRotaryParamChange e
       \<and> ((\<forall>q t. mELSwitchParamChange e \<noteq> Some (FloatSub q t)) \<longrightarrow> floatParams w' = floatParams w)
       \<and> ((\<forall>q t. mELSwitchParamChange e \<noteq> Some (IntSub q t)) \<longrightarrow> intParams w' = intParams w)
       \<and> (\<forall>q t. mELSwitchParamChange e = Some (BoolSub q t) \<longrightarrow>
             t \<notin> fst ` set (b_listeners (boolParams w' q)))
       \<and> (mELSwitchParamChange e \<noteq> Some (BoolSub pid (nextListener w)) \<longrightarrow>
             (nextListener w, idx) \<in> set (b_listeners (boolParams w' pid)))"
    using assms
    by (auto simp add: Let_def setParam_bool_enc_encoders setParam_bool_enc_params
        unsubscribe_params newBoolListener_def split: option.splits ofEventListener.splits)
  have int_part:
    "let e = mEncoders w ! idx;
         w' = setParam_int_enc lib idx pid w;
         e' = mEncoders w' ! idx
     in rotaryEnabled e'
       \<and> updateRotaryParam e' =
           Some (RotaryIntUpdate pid (i_min (intParams w pid)) (i_max (intParams w pid)))
       \<and> mELRotaryParamChange e' = Some (IntSub pid (nextListener w))
       \<and> switchEnabled e' = switchEnabled e
       \<and> updateSwitchParam e' = updateSwitchParam e
       \<and> mELSwitchParamChange e' = mELSwitchParamChange e
       \<and> ((\<forall>q t. mELRotaryParamChange e \<noteq> Some (BoolSub q t)) \<longrightarrow> boolParams w' = boolParams w)
       \<and> (\<forall>q t. mELRotaryParamChange e = Some (FloatSub q t) \<longrightarrow>
             t \<notin> fst ` set (f_listeners (floatParams w' q)))
       \<and> (\<forall>q t. mELRotaryParamChange e = Some (IntSub q t) \<longrightarrow>
             t \<notin> fst ` set (i_listeners (intParams w' q)))
       \<and> (mELRotaryParamChange e \<noteq> Some (IntSub pid (nextListener w)) \<longrightarrow>
             (nextListener w, idx, i_min (intParams w pid), i_max (intParams w pid))
               \<in> set (i_listeners (intParams w' pid)))"
    using assms
    by (auto simp add: Let_def setParam_int_enc_encoders setParam_int_enc_params
        unsubscribe_params newIntListener_def split: option.splits ofEventListener.splits)
  show ?thesis
    using float_part bool_part int_part by (intro conjI)
qed

theorem setParam_replaces_same_class_only_witness:
  "7 < length (mEncoders (setParam_bool_enc 7 2 example_start))
   \<and> rotaryEnabled (mEncoders (setParam_float_enc exactLib 7 4 (setParam_bool_enc 7 2 example_start)) ! 7)
   \<and> switchEnabled (mEncoders (setParam_float_enc exactLib 7 4 (setParam_bool_enc 7 2 example_start)) ! 7)
   \<and> boolParams (setParam_float_enc exactLib 7 4 (setParam_bool_enc 7 2 example_start)) =
       boolParams (setParam_bool_enc 7 2 example_start)
   \<and> b_listeners (boolParams (setParam_bool_enc 7 2 example_start) 2) = [(0, 7)]
   \<and> f_listeners (floatParams (setParam_float_enc exactLib 7 4 (setParam_bool_enc 7 2 example_start)) 4)
       = [(1, 7, 0, 1)]
   \<and> i_listeners (intParams
         (setParam_int_enc exactLib 7 1
            (setParam_float_enc exactLib 7 4 (setParam_bool_enc 7 2 example_start))) 1)
       = [(2, 7, 0, 10)]
   \<and> f_listeners (floatParams
         (setParam_int_enc exactLib 7 1
            (setParam_float_enc exactLib 7 4 (setParam_bool_enc 7 2 example_start))) 4)
       = []
   \<and> switchEnabled (mEncoders
         (setParam_int_enc exactLib 7 1
            (setParam_float_enc exactLib 7 4 (setParam_bool_enc 7 2 example_start))) ! 7)"
  using setParam_replaces_same_class_only [of 7 "setParam_bool_enc 7 2 example_start" exactLib 4]
    setParam_replaces_same_class_only [of 7 "setParam_float_enc exactLib 7 4 (setParam_bool_enc 7 2 example_start)" exactLib 1]
  by (simp add: Let_def setParam_bool_enc_encoders setParam_float_enc_encoders
      setParam_int_enc_encoders setParam_bool_enc_params setParam_float_enc_params
      setParam_int_enc_params unsubscribe_params newBoolListener_def newFloatListener_def
      newIntListener_def example_start_encoders example_start_fields)

text \<open>
  The claim as first stated fails: after a bool and then a float parameter are
  assigned to slot 3, the slot is still switch-enabled and still holds the
  subscription to the bool parameter, which is still in that parameter's list
  of listeners.
\<close>

theorem float_after_bool_keeps_switch_binding:
  "rotaryEnabled (mEncoders (setParam_float exactLib 3 0 (setParam_bool 3 0 example_start)) ! 3)
   \<and> switchEnabled (mEncoders (setParam_float exactLib 3 0 (setParam_bool 3 0 example_start)) ! 3)
   \<and> mELSwitchParamChange (mEncoders (setParam_float exactLib 3 0 (setParam_bool 3 0 example_start)) ! 3)
       = Some (BoolSub 0 0)
   \<and> b_listeners (boolParams (setParam_float exactLib 3 0 (setParam_bool 3 0 example_start)) 0)
       = [(0, 3)]"
  by (simp add: setParam_float_def setParam_bool_def mEncoders_size_def
      setParam_float_enc_encoders setParam_bool_enc_encoders
      setParam_float_enc_params setParam_bool_enc_params unsubscribe_params newBoolListener_def
      example_start_encoders example_start_fields)

section \<open>Bulk assignment\<close>

text \<open>
  C4, as amended. In \<^verbatim>\<open>setParams\<close>, a slot \<open>i\<close> whose parameter exists and is
  neither float, int nor bool is cleared by \<^verbatim>\<open>clearParam\<close> with the force flag
  not set, in the state \<open>v\<close> that the slots before it have left. That sends the
  phenotype frame 2 once when one of the slot's flags reads true and nothing
  when both read false; either way both flags read false afterwards and both
  subscriptions of the slot are released: the two handles are empty, the
  parameters are those of \<open>v\<close> with the two handles unsubscribed, and no
  listener with an identifier that the slot held is left in its parameter's
  list.
\<close>

theorem setParams_unmatched_clears_unforced:
  assumes "i < mEncoders_size" and "i < length grp" and "grp ! i = OtherRef"
    and "length (mEncoders w) = mEncoders_size"
  shows
    "(let v = setParams_loop lib [0..<i] (take i grp) w;
          e = mEncoders v ! i;
          v' = clearParam_enc i False v
      in setParams lib grp w =
           setParams_loop lib [Suc i..<mEncoders_size] (drop (Suc i) grp) v'
       \<and> sent v' =
           sent v @ (if rotaryEnabled e \<or> switchEnabled e then setEncoderPhenotype e 2 else [])
       \<and> mEncoders v' ! i =
           e\<lparr>rotaryEnabled := False, mELRotaryParamChange := None,
             switchEnabled := False, mELSwitchParamChange := None\<rparr>
       \<and> floatParams v' =
           floatParams (unsubscribe (mELSwitchParamChange e) (unsubscribe (mELRotaryParamChange e) v))
       \<and> intParams v' =
           intParams (unsubscribe (mELSwitchParamChange e) (unsubscribe (mELRotaryParamChange e) v))
       \<and> boolParams v' =
           boolParams (unsubscribe (mELSwitchParamChange e) (unsubscribe (mELRotaryParamChange e) v))
       \<and> (\<forall>q t. mELRotaryParamChange e = Some (FloatSub q t)
                  \<or> mELSwitchParamChange e = Some (FloatSub q t) \<longrightarrow>
             t \<notin> fst ` set (f_listeners (floatParams v' q)))
       \<and> (\<forall>q t. mELRotaryParamChange e = Some (IntSub q t)
                  \<or> mELSwitchParamChange e = Some (IntSub q t) \<longrightarrow>
             t \<notin> fst ` set (i_listeners (intParams v' q)))
       \<and> (\<forall>q t. mELRotaryParamChange e = Some (BoolSub q t)
                  \<or> mELSwitchParamChange e = Some (BoolSub q t) \<longrightarrow>
             t \<notin> fst ` set (b_listeners (boolParams v' q))))"
proof -
  let ?v = "setParams_loop lib [0..<i] (take i grp) w"
  let ?e = "mEncoders ?v ! i"
  let ?v' = "clearParam_enc i False ?v"
  have len: "i < length (mEncoders ?v)"
    using assms(1,4) by simp
  have "setParams lib grp w =
          setParams_loop lib (i # [Suc i..<mEncoders_size]) (OtherRef # drop (Suc i) grp) ?v"
    using setParams_split [OF assms(1,2), of lib w] assms(3) by simp
  then have loop: "setParams lib grp w =
          setParams_loop lib [Suc i..<mEncoders_size] (drop (Suc i) grp) ?v'"
    by simp
  have frames: "sent ?v' =
      sent ?v @ (if rotaryEnabled ?e \<or> switchEnabled ?e then setEncoderPhenotype ?e 2 else [])"
    using clearParam_enc_unforced_sent [OF len] by simp
  have enc: "mEncoders ?v' ! i =
           ?e\<lparr>rotaryEnabled := False, mELRotaryParamChange := None,
             switchEnabled := False, mELSwitchParamChange := None\<rparr>"
    using len by (simp add: clearParam_enc_encoders)
  have gone_f: "t \<notin> fst ` set (f_listeners (floatParams ?v' q))"
    if "mELRotaryParamChange ?e = Some (FloatSub q t) \<or> mELSwitchParamChange ?e = Some (FloatSub q t)"
    for q t
    using that
    by (auto simp add: clearParam_enc_params unsubscribe_params
        split: option.splits ofEventListener.splits)
  have gone_i: "t \<notin> fst ` set (i_listeners (intParams ?v' q))"
    if "mELRotaryParamChange ?e = Some (IntSub q t) \<or> mELSwitchParamChange ?e = Some (IntSub q t)"
    for q t
    using that
    by (auto simp add: clearParam_enc_params unsubscribe_params
        split: option.splits ofEventListener.splits)
  have gone_b: "t \<notin> fst ` set (b_listeners (boolParams ?v' q))"
    if "mELRotaryParamChange ?e = Some (BoolSub q t) \<or> mELSwitchParamChange ?e = Some (BoolSub q t)"
    for q t
    using that
    by (auto simp add: clearParam_enc_params unsubscribe_params
        split: option.splits ofEventListener.splits)
  show ?thesis
    unfolding Let_def
    using loop frames enc gone_f gone_i gone_b
    by (intro conjI allI impI) (simp_all only: clearParam_enc_params, blast+)
qed

theorem setParams_unmatched_clears_unforced_witness:
  "length (mEncoders (setParam_float_enc exactLib 0 1 (setParam_bool_enc 0 0 example_start)))
     = mEncoders_size
   \<and> b_listeners (boolParams (setParam_float_enc exactLib 0 1 (setParam_bool_enc 0 0 example_start)) 0)
       = [(0, 0)]
   \<and> f_listeners (floatParams (setParam_float_enc exactLib 0 1 (setParam_bool_enc 0 0 example_start)) 1)
       = [(1, 0, 0, 1)]
   \<and> setParams exactLib [OtherRef] (setParam_float_enc exactLib 0 1 (setParam_bool_enc 0 0 example_start)) =
       setParams_loop exactLib [Suc 0..<mEncoders_size] []
         (clearParam_enc 0 False (setParam_float_enc exactLib 0 1 (setParam_bool_enc 0 0 example_start)))
   \<and> sent (clearParam_enc 0 False (setParam_float_enc exactLib 0 1 (setParam_bool_enc 0 0 example_start))) =
       sent (setParam_float_enc exactLib 0 1 (setParam_bool_enc 0 0 example_start)) @ [[0xB4, 0, 2]]
   \<and> b_listeners (boolParams
         (clearParam_enc 0 False (setParam_float_enc exactLib 0 1 (setParam_bool_enc 0 0 example_start))) 0)
       = []
   \<and> f_listeners (floatParams
         (clearParam_enc 0 False (setParam_float_enc exactLib 0 1 (setParam_bool_enc 0 0 example_start))) 1)
       = []"
  using setParams_unmatched_clears_unforced [of 0 "[OtherRef]" "setParam_float_enc exactLib 0 1 (setParam_bool_enc 0 0 example_start)"
      exactLib]
  by (simp add: mEncoders_size_def Let_def setParam_float_enc_encoders setParam_bool_enc_encoders
      setParam_float_enc_params setParam_bool_enc_params unsubscribe_params
      newFloatListener_def newBoolListener_def setEncoderPhenotype_def
      example_start_encoders example_start_fields)

text \<open>
  The claim as first stated fails when the flags already read false: with one
  unmatched parameter in the group, \<^verbatim>\<open>setParams\<close> sends frames for the slots 1
  to 15 and none for slot 0, where a forced clear sends the phenotype frame
  twice.
\<close>

theorem setParams_unmatched_sends_nothing:
  "[0xB4, 0, 2] \<notin> set (sent (setParams exactLib [OtherRef] example_start))
   \<and> sent (clearParam 0 True example_start) = [[0xB4, 0, 2], [0xB4, 0, 2]]"
proof -
  have "sent (setParams exactLib [OtherRef] example_start) =
    [[0xB4, 1, 2], [0xB4, 1, 2], [0xB4, 2, 2], [0xB4, 2, 2], [0xB4, 3, 2], [0xB4, 3, 2],
     [0xB4, 4, 2], [0xB4, 4, 2], [0xB4, 5, 2], [0xB4, 5, 2], [0xB4, 6, 2], [0xB4, 6, 2],
     [0xB4, 7, 2], [0xB4, 7, 2], [0xB4, 8, 2], [0xB4, 8, 2], [0xB4, 9, 2], [0xB4, 9, 2],
     [0xB4, 10, 2], [0xB4, 10, 2], [0xB4, 11, 2], [0xB4, 11, 2], [0xB4, 12, 2], [0xB4, 12, 2],
     [0xB4, 13, 2], [0xB4, 13, 2], [0xB4, 14, 2], [0xB4, 14, 2], [0xB4, 15, 2], [0xB4, 15, 2]]"
    by (simp add: setParams_def mEncoders_size_def upt16 clearParam_enc_def Let_def
        setRotaryState_enc_def setSwitchState_enc_def setRotaryState_def setSwitchState_def
        setEncoderPhenotype_def sendMessage_def example_start_encoders example_start_fields)
  moreover have "sent (clearParam 0 True example_start) = [[0xB4, 0, 2], [0xB4, 0, 2]]"
    by (simp add: clearParam_def mEncoders_size_def clearParam_enc_forced_sent
        example_start_encoders example_start_fields setEncoderPhenotype_def)
  ultimately show ?thesis
    by simp
qed

section \<open>LEDs\<close>

lemma led_frames_short:
  "length (Encoder_setHueRGB lib e x) \<le> 1"
  "length (Encoder_setBrightnessRGB lib e x) \<le> 1"
  "length (Encoder_setBrightnessRotary lib e x) \<le> 1"
  "length (setAnimation e c) \<le> 1"
  by (simp_all add: Encoder_setHueRGB_def Encoder_setBrightnessRGB_def
      Encoder_setBrightnessRotary_def setAnimation_def)

lemma led_only_sends:
  "\<exists>fs. length fs \<le> 1 \<and> setHueRGB lib idx x w = w\<lparr>sent := sent w @ fs\<rparr>"
  "\<exists>fs. length fs \<le> 1 \<and> setBrightnessRGB lib idx x w = w\<lparr>sent := sent w @ fs\<rparr>"
  "\<exists>fs. length fs \<le> 1 \<and> setBrightnessRotary lib idx x w = w\<lparr>sent := sent w @ fs\<rparr>"
  "\<exists>fs. length fs \<le> 1 \<and> setAnimationRGB idx anim rate w = w\<lparr>sent := sent w @ fs\<rparr>"
  "\<exists>fs. length fs \<le> 1 \<and> setAnimationRotary idx anim rate w = w\<lparr>sent := sent w @ fs\<rparr>"
proof -
  have none: "\<exists>fs. length fs \<le> 1 \<and> w = w\<lparr>sent := sent w @ fs\<rparr>"
    by (rule exI [of _ "[]"]) simp
  show "\<exists>fs. length fs \<le> 1 \<and> setHueRGB lib idx x w = w\<lparr>sent := sent w @ fs\<rparr>"
    using none led_frames_short(1) [of lib "mEncoders w ! idx" x]
    by (auto simp add: setHueRGB_def setHueRGB_enc_def sendMessage_alt)
  show "\<exists>fs. length fs \<le> 1 \<and> setBrightnessRGB lib idx x w = w\<lparr>sent := sent w @ fs\<rparr>"
    using none led_frames_short(2) [of lib "mEncoders w ! idx" x]
    by (auto simp add: setBrightnessRGB_def setBrightnessRGB_enc_def sendMessage_alt)
  show "\<exists>fs. length fs \<le> 1 \<and> setBrightnessRotary lib idx x w = w\<lparr>sent := sent w @ fs\<rparr>"
    using none led_frames_short(3) [of lib "mEncoders w ! idx" x]
    by (auto simp add: setBrightnessRotary_def setBrightnessRotary_enc_def sendMessage_alt)
  show "\<exists>fs. length fs \<le> 1 \<and> setAnimationRGB idx anim rate w = w\<lparr>sent := sent w @ fs\<rparr>"
    using none led_frames_short(4) [of "mEncoders w ! idx" "animationRGB_mode anim rate"]
    by (auto simp add: setAnimationRGB_def setAnimationRGB_enc_def sendMessage_alt)
  show "\<exists>fs. length fs \<le> 1 \<and> setAnimationRotary idx anim rate w = w\<lparr>sent := sent w @ fs\<rparr>"
    using none led_frames_short(4) [of "mEncoders w ! idx" "animationRotary_mode anim rate"]
    by (auto simp add: setAnimationRotary_def setAnimationRotary_enc_def sendMessage_alt)
qed

lemma rate_no_wrap:
  fixes rate :: uint8
  assumes "rate < 8"
  shows "unat (1 + rate) = 1 + unat rate" "unat (9 + rate) = 9 + unat rate"
    "unat (49 + rate) = 49 + unat rate" "unat (57 + rate) = 57 + unat rate"
proof -
  have r: "unat rate < 8"
    using assms by (simp add: word_less_nat_alt)
  show "unat (1 + rate) = 1 + unat rate"
    using r unat_add_lem [of 1 rate] by simp
  show "unat (9 + rate) = 9 + unat rate"
    using r unat_add_lem [of 9 rate] by simp
  show "unat (49 + rate) = 49 + unat rate"
    using r unat_add_lem [of 49 rate] by simp
  show "unat (57 + rate) = 57 + unat rate"
    using r unat_add_lem [of 57 rate] by simp
qed

text \<open>
  C8. For a rate below 8, a slot in range and an output attached, the
  animation setters send one frame \<open>B2 pos code\<close> with the code: \<^verbatim>\<open>NONE\<close> 0
  (RGB) and 48 (rotary), \<^verbatim>\<open>STROBE\<close> \<open>1 + rate\<close> and \<open>49 + rate\<close>, \<^verbatim>\<open>PULSE\<close>
  \<open>9 + rate\<close> and \<open>57 + rate\<close>, \<^verbatim>\<open>RAINBOW\<close> 127 on RGB, none of the sums
  wrapping; \<^verbatim>\<open>RAINBOW\<close> for the rotary LED changes nothing. \<^verbatim>\<open>STROBE\<close> at
  rate 3 is 4 on RGB and 52 on rotary.
\<close>

theorem animation_wire_codes:
  assumes "rate < 8" and "idx < mEncoders_size" and "mMidiOut (mEncoders w ! idx)"
  shows "setAnimationRGB idx NONE rate w = w\<lparr>sent := sent w @ [[0xB2, pos (mEncoders w ! idx), 0]]\<rparr>
       \<and> setAnimationRotary idx NONE rate w = w\<lparr>sent := sent w @ [[0xB2, pos (mEncoders w ! idx), 48]]\<rparr>
       \<and> setAnimationRGB idx STROBE rate w = w\<lparr>sent := sent w @ [[0xB2, pos (mEncoders w ! idx), 1 + rate]]\<rparr>
       \<and> setAnimationRotary idx STROBE rate w = w\<lparr>sent := sent w @ [[0xB2, pos (mEncoders w ! idx), 49 + rate]]\<rparr>
       \<and> setAnimationRGB idx PULSE rate w = w\<lparr>sent := sent w @ [[0xB2, pos (mEncoders w ! idx), 9 + rate]]\<rparr>
       \<and> setAnimationRotary idx PULSE rate w = w\<lparr>sent := sent w @ [[0xB2, pos (mEncoders w ! idx), 57 + rate]]\<rparr>
       \<and> setAnimationRGB idx RAINBOW rate w = w\<lparr>sent := sent w @ [[0xB2, pos (mEncoders w ! idx), 127]]\<rparr>
       \<and> setAnimationRotary idx RAINBOW rate w = w
       \<and> unat (1 + rate) = 1 + unat rate \<and> unat (49 + rate) = 49 + unat rate
       \<and> unat (9 + rate) = 9 + unat rate \<and> unat (57 + rate) = 57 + unat rate
       \<and> animationRGB_mode STROBE 3 = 4 \<and> animationRotary_mode STROBE 3 = 52"
  using assms rate_no_wrap [OF assms(1)]
  by (simp add: setAnimationRGB_def setAnimationRGB_enc_def setAnimationRotary_def
      setAnimationRotary_enc_def animationRGB_mode_def animationRotary_mode_def
      setAnimation_def sendMessage_alt)

theorem animation_wire_codes_witness:
  "(3 :: uint8) < 8 \<and> (2 :: nat) < mEncoders_size \<and> mMidiOut (mEncoders example_start ! 2)
   \<and> setAnimationRGB 2 STROBE 3 example_start = example_start\<lparr>sent := [[0xB2, 2, 4]]\<rparr>
   \<and> setAnimationRotary 2 STROBE 3 example_start = example_start\<lparr>sent := [[0xB2, 2, 52]]\<rparr>
   \<and> setAnimationRotary 2 RAINBOW 3 example_start = example_start"
  using animation_wire_codes [of 3 2 example_start]
  by (simp add: mEncoders_size_def example_start_encoders example_start_fields)

text \<open>
  C10. Whatever the slot index and the argument, each of the five LED
  operations returns the state it was given with at most one frame added to the
  frames sent: the encoders (flags, handlers and subscription handles), the
  pending low byte, the queue and the parameters with their listeners are
  unchanged.
\<close>

theorem led_operations_only_send:
  "(\<exists>fs. length fs \<le> 1 \<and> setHueRGB lib idx x w = w\<lparr>sent := sent w @ fs\<rparr>)
   \<and> (\<exists>fs. length fs \<le> 1 \<and> setBrightnessRGB lib idx x w = w\<lparr>sent := sent w @ fs\<rparr>)
   \<and> (\<exists>fs. length fs \<le> 1 \<and> setBrightnessRotary lib idx x w = w\<lparr>sent := sent w @ fs\<rparr>)
   \<and> (\<exists>fs. length fs \<le> 1 \<and> setAnimationRGB idx anim rate w = w\<lparr>sent := sent w @ fs\<rparr>)
   \<and> (\<exists>fs. length fs \<le> 1 \<and> setAnimationRotary idx anim rate w = w\<lparr>sent := sent w @ fs\<rparr>)
   \<and> mEncoders (setHueRGB lib idx x w) = mEncoders w
   \<and> mEncoders (setBrightnessRGB lib idx x w) = mEncoders w
   \<and> mEncoders (setBrightnessRotary lib idx x w) = mEncoders w
   \<and> mEncoders (setAnimationRGB idx anim rate w) = mEncoders w
   \<and> mEncoders (setAnimationRotary idx anim rate w) = mEncoders w
   \<and> mHighResVelLowByte (setHueRGB lib idx x w) = mHighResVelLowByte w
   \<and> mHighResVelLowByte (setBrightnessRGB lib idx x w) = mHighResVelLowByte w
   \<and> mHighResVelLowByte (setBrightnessRotary lib idx x w) = mHighResVelLowByte w
   \<and> mHighResVelLowByte (setAnimationRGB idx anim rate w) = mHighResVelLowByte w
   \<and> mHighResVelLowByte (setAnimationRotary idx anim rate w) = mHighResVelLowByte w"
proof -
  have fields: "mEncoders (setHueRGB lib idx x w) = mEncoders w"
    "mEncoders (setBrightnessRGB lib idx x w) = mEncoders w"
    "mEncoders (setBrightnessRotary lib idx x w) = mEncoders w"
    "mEncoders (setAnimationRGB idx anim rate w) = mEncoders w"
    "mEncoders (setAnimationRotary idx anim rate w) = mEncoders w"
    "mHighResVelLowByte (setHueRGB lib idx x w) = mHighResVelLowByte w"
    "mHighResVelLowByte (setBrightnessRGB lib idx x w) = mHighResVelLowByte w"
    "mHighResVelLowByte (setBrightnessRotary lib idx x w) = mHighResVelLowByte w"
    "mHighResVelLowByte (setAnimationRGB idx anim rate w) = mHighResVelLowByte w"
    "mHighResVelLowByte (setAnimationRotary idx anim rate w) = mHighResVelLowByte w"
    by (simp_all add: setHueRGB_def setHueRGB_enc_def setBrightnessRGB_def setBrightnessRGB_enc_def
        setBrightnessRotary_def setBrightnessRotary_enc_def setAnimationRGB_def
        setAnimationRGB_enc_def setAnimationRotary_def setAnimationRotary_enc_def)
  show ?thesis
    by (intro conjI) (rule led_only_sends fields)+
qed

end
